theory Spec2Isabelle
  imports Complex_Main
begin

section \<open>Tensors and the errors of the numeric library\<close>

text \<open>
  The message-passing blocks of \<^verbatim>\<open>chemprop/v2/models/modules/message_passing/molecule.py\<close>
  work on two-dimensional tensors. A tensor is modelled as the list of its rows; its entries
  are real numbers (the rounding of floating-point arithmetic is not modelled). Every
  exception the code can raise is a value of \<open>error\<close>, and a fallible operation returns
  \<open>error + 'a\<close> with \<open>Inl\<close> for the exception. \<open>InvalidShapeError\<close> carries the three
  arguments the code gives it: the name of the parameter, the shape received and the
  shape expected.
\<close>

type_synonym vec = "real list"
type_synonym mat = "real list list"

datatype error =
    RuntimeError
  | IndexError
  | AttributeError
  | ValueError
  | InvalidShapeError string "nat list" "nat list"

text \<open>Sequencing of fallible steps: the first exception ends the computation.\<close>

definition ebind :: "error + 'a \<Rightarrow> ('a \<Rightarrow> error + 'b) \<Rightarrow> error + 'b" where
  "ebind x f = (case x of Inl e \<Rightarrow> Inl e | Inr v \<Rightarrow> f v)"

text \<open>\<^verbatim>\<open>len(M)\<close> is \<open>length M\<close>; the second component of \<^verbatim>\<open>M.shape\<close> is \<open>width M\<close>.\<close>

definition width :: "mat \<Rightarrow> nat" where
  "width M = (case M of [] \<Rightarrow> 0 | r # _ \<Rightarrow> length r)"

definition shape :: "mat \<Rightarrow> nat list" where
  "shape M = [length M, width M]"

text \<open>\<^verbatim>\<open>torch.cat((A, B), 1)\<close>: the row counts have to agree.\<close>

definition cat1 :: "mat \<Rightarrow> mat \<Rightarrow> error + mat" where
  "cat1 A B = (if length A = length B then Inr (map2 (@) A B) else Inl RuntimeError)"

text \<open>
  Indexing with a tensor of integers: an index \<open>i\<close> with \<open>- n \<le> i < n\<close> is accepted and a
  negative one counts from the end; any other index raises \<^verbatim>\<open>IndexError\<close>.
\<close>

definition valid_index :: "nat \<Rightarrow> int \<Rightarrow> bool" where
  "valid_index n i = (- int n \<le> i \<and> i < int n)"

definition norm_index :: "nat \<Rightarrow> int \<Rightarrow> nat" where
  "norm_index n i = (if i < 0 then nat (int n + i) else nat i)"

definition index_select :: "'a list \<Rightarrow> int list \<Rightarrow> error + 'a list" where
  "index_select H idx =
     (if list_all (valid_index (length H)) idx
      then Inr (map (\<lambda>i. H ! norm_index (length H) i) idx)
      else Inl IndexError)"

text \<open>
  \<^verbatim>\<open>H[idx]\<close> for a two-dimensional index tensor is a three-dimensional tensor, here the
  list of the gathered matrices, one for each row of \<open>idx\<close>.
\<close>

definition gather :: "mat \<Rightarrow> int list list \<Rightarrow> error + mat list" where
  "gather H idx =
     (if list_all (list_all (valid_index (length H))) idx
      then Inr (map (map (\<lambda>i. H ! norm_index (length H) i)) idx)
      else Inl IndexError)"

text \<open>
  \<^verbatim>\<open>T.sum(1)\<close> on a three-dimensional tensor whose last dimension is \<open>d\<close>: the rows of
  each gathered matrix are added up, starting from the zero row of width \<open>d\<close>.
\<close>

definition vadd :: "vec \<Rightarrow> vec \<Rightarrow> vec" where
  "vadd x y = map2 (+) x y"

definition zeros :: "nat \<Rightarrow> vec" where
  "zeros d = replicate d 0"

definition sum1 :: "nat \<Rightarrow> mat list \<Rightarrow> mat" where
  "sum1 d T = map (\<lambda>rows. foldr vadd rows (zeros d)) T"

text \<open>\<^verbatim>\<open>torch.cat((A, B), 2)\<close> on three-dimensional tensors: the first two dimensions agree.\<close>

definition cat2 :: "mat list \<Rightarrow> mat list \<Rightarrow> error + mat list" where
  "cat2 A B =
     (if map length A = map length B then Inr (map2 (map2 (@)) A B) else Inl RuntimeError)"

text \<open>
  Elementwise arithmetic of two matrices with the broadcasting of the library: along each
  dimension the sizes agree or one of them is 1.
\<close>

definition broadcast_row :: "(real \<Rightarrow> real \<Rightarrow> real) \<Rightarrow> vec \<Rightarrow> vec \<Rightarrow> error + vec" where
  "broadcast_row f x y =
     (if length x = length y then Inr (map2 f x y)
      else if length x = 1 then Inr (map (f (hd x)) y)
      else if length y = 1 then Inr (map (\<lambda>a. f a (hd y)) x)
      else Inl RuntimeError)"

fun collect :: "(error + 'a) list \<Rightarrow> error + 'a list" where
  "collect [] = Inr []"
| "collect (x # xs) =
     (case x of Inl e \<Rightarrow> Inl e
      | Inr v \<Rightarrow> (case collect xs of Inl e \<Rightarrow> Inl e | Inr vs \<Rightarrow> Inr (v # vs)))"

definition broadcast_op :: "(real \<Rightarrow> real \<Rightarrow> real) \<Rightarrow> mat \<Rightarrow> mat \<Rightarrow> error + mat" where
  "broadcast_op f A B =
     (if length A = length B then collect (map2 (broadcast_row f) A B)
      else if length A = 1 then collect (map (broadcast_row f (hd A)) B)
      else if length B = 1 then collect (map (\<lambda>a. broadcast_row f a (hd B)) A)
      else Inl RuntimeError)"

definition halve :: "mat \<Rightarrow> mat" where
  "halve A = map (map (\<lambda>x. x / 2)) A"

section \<open>Linear layers, activation and dropout\<close>

text \<open>
  \<^verbatim>\<open>nn.Linear(d_in, d_out, bias)\<close> holds a \<open>d_out \<times> d_in\<close> weight and, when \<open>bias\<close> is
  set, a bias of length \<open>d_out\<close>. The learned values are the functions \<open>weight\<close> and
  \<open>bias\<close>, read only inside these bounds. Applying the layer to a matrix whose rows do not
  have \<open>d_in\<close> entries raises \<^verbatim>\<open>RuntimeError\<close>.
\<close>

record Linear =
  in_features :: nat
  out_features :: nat
  weight :: "nat \<Rightarrow> nat \<Rightarrow> real"
  bias :: "(nat \<Rightarrow> real) option"

type_synonym raw_linear = "(nat \<Rightarrow> nat \<Rightarrow> real) \<times> (nat \<Rightarrow> real)"

definition Linear_init :: "nat \<Rightarrow> nat \<Rightarrow> bool \<Rightarrow> raw_linear \<Rightarrow> Linear" where
  "Linear_init d_in d_out b th =
     \<lparr> in_features = d_in, out_features = d_out, weight = fst th,
       bias = (if b then Some (snd th) else None) \<rparr>"

definition linear_row :: "Linear \<Rightarrow> vec \<Rightarrow> vec" where
  "linear_row L x =
     map (\<lambda>j. sum_list (map (\<lambda>i. x ! i * weight L j i) [0..<in_features L])
              + (case bias L of None \<Rightarrow> 0 | Some b \<Rightarrow> b j))
         [0..<out_features L]"

definition Linear_forward :: "Linear \<Rightarrow> mat \<Rightarrow> error + mat" where
  "Linear_forward L X =
     (if list_all (\<lambda>x. length x = in_features L) X
      then Inr (map (linear_row L) X)
      else Inl RuntimeError)"

text \<open>The activation function acts on every entry.\<close>

definition activate :: "(real \<Rightarrow> real) \<Rightarrow> mat \<Rightarrow> mat" where
  "activate t X = map (map t) X"

text \<open>
  \<^verbatim>\<open>nn.Dropout(p)\<close>: the identity in evaluation mode and for \<open>p = 0\<close>; in training mode
  every entry is kept with probability \<open>1 - p\<close> and then divided by \<open>1 - p\<close>, and is zero
  otherwise. The random draws are an argument: \<open>kept i j\<close> tells whether the entry at row
  \<open>i\<close> and column \<open>j\<close> is kept.
\<close>

definition dropout_entry :: "real \<Rightarrow> bool \<Rightarrow> real \<Rightarrow> real" where
  "dropout_entry p kept x = (if p = 1 then 0 else if kept then x / (1 - p) else 0)"

definition dropout_forward :: "real \<Rightarrow> bool \<Rightarrow> (nat \<Rightarrow> nat \<Rightarrow> bool) \<Rightarrow> mat \<Rightarrow> mat" where
  "dropout_forward p train kept X =
     (if p = 0 \<or> \<not> train then X
      else map2 (\<lambda>i row. map2 (\<lambda>j x. dropout_entry p (kept i j) x) [0..<length row] row)
             [0..<length X] X)"

section \<open>The batch of molecule graphs\<close>

text \<open>
  The fields of \<^verbatim>\<open>BatchMolGraph\<close> that the blocks read: the vertex and edge feature
  matrices and the index tensors of the adjacency.
\<close>

record BatchMolGraph =
  V :: mat
  E :: mat
  a2b :: "int list list"
  b2a :: "int list"
  b2revb :: "int list"
  a2a :: "int list list"

section \<open>The message-passing block\<close>

text \<open>
  The attributes that \<^verbatim>\<open>MessagePassingBlockBase.__init__\<close> sets. \<open>priv_output_dim\<close> is the
  private attribute \<^verbatim>\<open>__output_dim\<close>; \<open>d_vd\<close> and \<open>W_vd\<close> exist only when a
  descriptor width was given, so both are optional. \<open>training\<close> is the mode flag of the
  module, set on construction.
\<close>

record block =
  depth :: int
  undirected :: bool
  dropout :: real
  training :: bool
  tau :: "real \<Rightarrow> real"
  priv_output_dim :: nat
  d_vd :: "nat option"
  W_vd :: "Linear option"
  W_i :: Linear
  W_h :: Linear
  W_o :: Linear

text \<open>The initial values of the four weight matrices, which the library draws at random.\<close>

record initial_weights =
  init_W_i :: raw_linear
  init_W_h :: raw_linear
  init_W_o :: raw_linear
  init_W_vd :: raw_linear

definition Bond_setup_weight_matrices ::
  "initial_weights \<Rightarrow> nat \<Rightarrow> nat \<Rightarrow> nat \<Rightarrow> bool \<Rightarrow> Linear \<times> Linear \<times> Linear" where
  "Bond_setup_weight_matrices th d_v d_e d_h b =
     (Linear_init d_e d_h b (init_W_i th),
      Linear_init d_h d_h b (init_W_h th),
      Linear_init (d_v + d_h) d_h True (init_W_o th))"

definition Atom_setup_weight_matrices ::
  "initial_weights \<Rightarrow> nat \<Rightarrow> nat \<Rightarrow> nat \<Rightarrow> bool \<Rightarrow> Linear \<times> Linear \<times> Linear" where
  "Atom_setup_weight_matrices th d_v d_e d_h b =
     (Linear_init d_v d_h b (init_W_i th),
      Linear_init (d_e + d_h) d_h b (init_W_h th),
      Linear_init (d_v + d_h) d_h True (init_W_o th))"

text \<open>
  \<^verbatim>\<open>MessagePassingBlockBase.__init__\<close>. The lookup of the activation function by name
  (\<^verbatim>\<open>get_activation_function\<close>) is a parameter, and so is the method
  \<^verbatim>\<open>setup_weight_matrices\<close> of the subclass. The only checks are those of the calls it
  makes: \<^verbatim>\<open>nn.Dropout\<close> raises \<^verbatim>\<open>ValueError\<close> for a probability outside \<open>[0, 1]\<close>, and
  the activation lookup may fail. The depth is stored as it is given.
\<close>

definition Base_init ::
  "(string \<Rightarrow> error + (real \<Rightarrow> real)) \<Rightarrow>
   (nat \<Rightarrow> nat \<Rightarrow> nat \<Rightarrow> bool \<Rightarrow> Linear \<times> Linear \<times> Linear) \<Rightarrow> raw_linear \<Rightarrow>
   nat \<Rightarrow> nat \<Rightarrow> nat \<Rightarrow> bool \<Rightarrow> int \<Rightarrow> bool \<Rightarrow> real \<Rightarrow> string \<Rightarrow> nat option \<Rightarrow> error + block" where
  "Base_init get_activation_function setup_weight_matrices th_vd
       d_v d_e d_h b depth' undirected' dropout' activation d_vd' =
     (if dropout' < 0 \<or> 1 < dropout' then Inl ValueError
      else ebind (get_activation_function activation) (\<lambda>t.
        (case setup_weight_matrices d_v d_e d_h b of (Wi, Wh, Wo) \<Rightarrow>
           Inr \<lparr> depth = depth', undirected = undirected', dropout = dropout',
                 training = True, tau = t,
                 priv_output_dim = (case d_vd' of None \<Rightarrow> d_h | Some d \<Rightarrow> d_h + d),
                 d_vd = d_vd',
                 W_vd = (case d_vd' of None \<Rightarrow> None
                         | Some d \<Rightarrow> Some (Linear_init (d_h + d) (d_h + d) True th_vd)),
                 W_i = Wi, W_h = Wh, W_o = Wo \<rparr>)))"

definition BondMessageBlock ::
  "(string \<Rightarrow> error + (real \<Rightarrow> real)) \<Rightarrow> initial_weights \<Rightarrow>
   nat \<Rightarrow> nat \<Rightarrow> nat \<Rightarrow> bool \<Rightarrow> int \<Rightarrow> bool \<Rightarrow> real \<Rightarrow> string \<Rightarrow> nat option \<Rightarrow> error + block" where
  "BondMessageBlock get_activation_function th =
     Base_init get_activation_function (Bond_setup_weight_matrices th) (init_W_vd th)"

definition AtomMessageBlock ::
  "(string \<Rightarrow> error + (real \<Rightarrow> real)) \<Rightarrow> initial_weights \<Rightarrow>
   nat \<Rightarrow> nat \<Rightarrow> nat \<Rightarrow> bool \<Rightarrow> int \<Rightarrow> bool \<Rightarrow> real \<Rightarrow> string \<Rightarrow> nat option \<Rightarrow> error + block" where
  "AtomMessageBlock get_activation_function th =
     Base_init get_activation_function (Atom_setup_weight_matrices th) (init_W_vd th)"

text \<open>The property \<^verbatim>\<open>output_dim\<close>.\<close>

definition output_dim :: "block \<Rightarrow> nat" where
  "output_dim blk = out_features (W_o blk)"

text \<open>
  The dropout layer of a block. \<open>keep k\<close> holds the random draws of the \<open>k\<close>-th call of
  the layer within one encoding.
\<close>

definition block_dropout :: "block \<Rightarrow> (nat \<Rightarrow> nat \<Rightarrow> nat \<Rightarrow> bool) \<Rightarrow> nat \<Rightarrow> mat \<Rightarrow> mat" where
  "block_dropout blk keep k X = dropout_forward (dropout blk) (training blk) (keep k) X"

subsection \<open>finalize\<close>

text \<open>
  \<^verbatim>\<open>finalize(M_v, V, V_d)\<close>; \<open>k\<close> counts the dropout calls made before it. The body of the
  \<^verbatim>\<open>try\<close> is \<open>fuse\<close>: a \<^verbatim>\<open>RuntimeError\<close> raised there is replaced by
  \<^verbatim>\<open>InvalidShapeError("V_d", V_d.shape, [len(H_v), self.d_vd])\<close>, and reading an attribute
  that was never set raises \<^verbatim>\<open>AttributeError\<close>.
\<close>

definition fuse :: "block \<Rightarrow> (nat \<Rightarrow> nat \<Rightarrow> nat \<Rightarrow> bool) \<Rightarrow> nat \<Rightarrow> mat \<Rightarrow> mat \<Rightarrow> error + mat" where
  "fuse blk keep k H_v Vd =
     ebind (cat1 H_v Vd) (\<lambda>H_vd.
       (case W_vd blk of None \<Rightarrow> Inl AttributeError
        | Some L \<Rightarrow> ebind (Linear_forward L H_vd) (\<lambda>H. Inr (block_dropout blk keep k H))))"

definition finalize ::
  "block \<Rightarrow> (nat \<Rightarrow> nat \<Rightarrow> nat \<Rightarrow> bool) \<Rightarrow> nat \<Rightarrow> mat \<Rightarrow> mat \<Rightarrow> mat option \<Rightarrow> error + mat" where
  "finalize blk keep k M_v Vx V_d =
     ebind (cat1 Vx M_v) (\<lambda>VM.
     ebind (Linear_forward (W_o blk) VM) (\<lambda>H.
       (let H_v = block_dropout blk keep k (activate (tau blk) H) in
        (case V_d of None \<Rightarrow> Inr H_v
         | Some Vd \<Rightarrow>
            (case fuse blk keep (Suc k) H_v Vd of
               Inr H' \<Rightarrow> Inr H'
             | Inl e \<Rightarrow>
                 (if e = RuntimeError
                  then (case d_vd blk of None \<Rightarrow> Inl AttributeError
                        | Some d \<Rightarrow> Inl (InvalidShapeError ''V_d'' (shape Vd) [length H_v, d]))
                  else Inl e))))))"

subsection \<open>The bond-centered block\<close>

text \<open>
  One pass of the loop body of \<^verbatim>\<open>BondMessageBlock.forward\<close>, in the order of the source:
  the optional symmetrization, the message (gather over \<open>a2b\<close>, sum, index with \<open>b2a\<close>,
  subtract the state of the reverse bond) and the update. \<open>H_0\<close> is the input projection
  before the activation.
\<close>

definition symmetrize :: "BatchMolGraph \<Rightarrow> mat \<Rightarrow> error + mat" where
  "symmetrize bmg H =
     ebind (index_select H (b2revb bmg)) (\<lambda>R.
     ebind (broadcast_op (+) H R) (\<lambda>S. Inr (halve S)))"

definition Bond_message :: "BatchMolGraph \<Rightarrow> mat \<Rightarrow> error + mat" where
  "Bond_message bmg H_e =
     ebind (gather H_e (a2b bmg)) (\<lambda>M_e_k.
     ebind (index_select (sum1 (width H_e) M_e_k) (b2a bmg)) (\<lambda>M_e.
     ebind (index_select H_e (b2revb bmg)) (\<lambda>R.
       broadcast_op (-) M_e R)))"

definition update ::
  "block \<Rightarrow> (nat \<Rightarrow> nat \<Rightarrow> nat \<Rightarrow> bool) \<Rightarrow> nat \<Rightarrow> mat \<Rightarrow> mat \<Rightarrow> error + mat" where
  "update blk keep k H_0 M =
     ebind (Linear_forward (W_h blk) M) (\<lambda>H.
     ebind (broadcast_op (+) H_0 H) (\<lambda>S.
       Inr (block_dropout blk keep k (activate (tau blk) S))))"

definition Bond_round ::
  "block \<Rightarrow> (nat \<Rightarrow> nat \<Rightarrow> nat \<Rightarrow> bool) \<Rightarrow> BatchMolGraph \<Rightarrow> mat \<Rightarrow> nat \<Rightarrow> mat \<Rightarrow> error + mat" where
  "Bond_round blk keep bmg H_0 k H_e =
     ebind (if undirected blk then symmetrize bmg H_e else Inr H_e) (\<lambda>H_e'.
     ebind (Bond_message bmg H_e') (\<lambda>M_e.
       update blk keep k H_0 M_e))"

text \<open>The loop \<^verbatim>\<open>for _ in range(1, self.depth)\<close> with \<open>n\<close> passes left.\<close>

fun Bond_loop ::
  "block \<Rightarrow> (nat \<Rightarrow> nat \<Rightarrow> nat \<Rightarrow> bool) \<Rightarrow> BatchMolGraph \<Rightarrow> mat \<Rightarrow> nat \<Rightarrow> nat \<Rightarrow> mat \<Rightarrow> error + mat" where
  "Bond_loop blk keep bmg H_0 0 k H_e = Inr H_e"
| "Bond_loop blk keep bmg H_0 (Suc n) k H_e =
     (case Bond_round blk keep bmg H_0 k H_e of
        Inl e \<Rightarrow> Inl e
      | Inr H_e' \<Rightarrow> Bond_loop blk keep bmg H_0 n (Suc k) H_e')"

text \<open>\<^verbatim>\<open>range(1, depth)\<close> has \<open>depth - 1\<close> elements, and none when \<open>depth \<le> 1\<close>.\<close>

definition rounds :: "block \<Rightarrow> nat" where
  "rounds blk = nat (depth blk - 1)"

definition Bond_forward ::
  "block \<Rightarrow> (nat \<Rightarrow> nat \<Rightarrow> nat \<Rightarrow> bool) \<Rightarrow> BatchMolGraph \<Rightarrow> mat option \<Rightarrow> error + mat" where
  "Bond_forward blk keep bmg V_d =
     ebind (Linear_forward (W_i blk) (E bmg)) (\<lambda>H_0.
     ebind (Bond_loop blk keep bmg H_0 (rounds blk) 0 (activate (tau blk) H_0)) (\<lambda>H_e.
     ebind (gather H_e (a2b bmg)) (\<lambda>M_v_k.
       finalize blk keep (rounds blk) (sum1 (width H_e) M_v_k) (V bmg) V_d)))"

subsection \<open>The atom-centered block\<close>

text \<open>
  The loop body of \<^verbatim>\<open>AtomMessageBlock.forward\<close>. The symmetrization indexes the atom
  states with \<open>b2revb\<close>, as the source does; the message concatenates the gathered
  neighbour states with the gathered bond features along the last dimension and sums
  over the neighbours.
\<close>

definition Atom_message :: "BatchMolGraph \<Rightarrow> mat \<Rightarrow> error + mat" where
  "Atom_message bmg H_v =
     ebind (gather H_v (a2a bmg)) (\<lambda>HA.
     ebind (gather (E bmg) (a2b bmg)) (\<lambda>EB.
     ebind (cat2 HA EB) (\<lambda>M_v_k.
       Inr (sum1 (width H_v + width (E bmg)) M_v_k))))"

definition Atom_round ::
  "block \<Rightarrow> (nat \<Rightarrow> nat \<Rightarrow> nat \<Rightarrow> bool) \<Rightarrow> BatchMolGraph \<Rightarrow> mat \<Rightarrow> nat \<Rightarrow> mat \<Rightarrow> error + mat" where
  "Atom_round blk keep bmg H_0 k H_v =
     ebind (if undirected blk then symmetrize bmg H_v else Inr H_v) (\<lambda>H_v'.
     ebind (Atom_message bmg H_v') (\<lambda>M_v.
       update blk keep k H_0 M_v))"

fun Atom_loop ::
  "block \<Rightarrow> (nat \<Rightarrow> nat \<Rightarrow> nat \<Rightarrow> bool) \<Rightarrow> BatchMolGraph \<Rightarrow> mat \<Rightarrow> nat \<Rightarrow> nat \<Rightarrow> mat \<Rightarrow> error + mat" where
  "Atom_loop blk keep bmg H_0 0 k H_v = Inr H_v"
| "Atom_loop blk keep bmg H_0 (Suc n) k H_v =
     (case Atom_round blk keep bmg H_0 k H_v of
        Inl e \<Rightarrow> Inl e
      | Inr H_v' \<Rightarrow> Atom_loop blk keep bmg H_0 n (Suc k) H_v')"

definition Atom_forward ::
  "block \<Rightarrow> (nat \<Rightarrow> nat \<Rightarrow> nat \<Rightarrow> bool) \<Rightarrow> BatchMolGraph \<Rightarrow> mat option \<Rightarrow> error + mat" where
  "Atom_forward blk keep bmg V_d =
     ebind (Linear_forward (W_i blk) (V bmg)) (\<lambda>H_0.
     ebind (Atom_loop blk keep bmg H_0 (rounds blk) 0 (activate (tau blk) H_0)) (\<lambda>H_v.
     ebind (gather H_v (a2a bmg)) (\<lambda>M_v_k.
       finalize blk keep (rounds blk) (sum1 (width H_v) M_v_k) (V bmg) V_d)))"

section \<open>Shapes and well-formed batches\<close>

text \<open>
  \<open>is_mat n d M\<close>: the tensor \<open>M\<close> has shape \<open>n \<times> d\<close>. \<open>in_range n i\<close>: the index
  \<open>i\<close> addresses one of \<open>n\<close> rows without wrapping. \<open>wf_batch d_v d_e bmg\<close>: the
  tensors of the batch have the shapes and index ranges that the featurizer produces for
  feature widths \<open>d_v\<close> and \<open>d_e\<close> (both feature matrices hold at least the sentinel row).
  It says nothing about the contents of \<open>b2revb\<close> beyond its range. The featurizer is not
  among the sources at hand, so these conditions are premises of the theorems and follow
  the description of the batch: one feature row per atom and per directed edge after
  the sentinel row, a neighbour list per atom in \<open>a2b\<close> and \<open>a2a\<close>, and an entry per edge
  in \<open>b2a\<close> and \<open>b2revb\<close>.
\<close>

definition is_mat :: "nat \<Rightarrow> nat \<Rightarrow> mat \<Rightarrow> bool" where
  "is_mat n d M = (length M = n \<and> list_all (\<lambda>r. length r = d) M)"

definition in_range :: "nat \<Rightarrow> int \<Rightarrow> bool" where
  "in_range n i = (0 \<le> i \<and> i < int n)"

definition wf_batch :: "nat \<Rightarrow> nat \<Rightarrow> BatchMolGraph \<Rightarrow> bool" where
  "wf_batch d_v d_e bmg =
     (0 < length (V bmg) \<and> is_mat (length (V bmg)) d_v (V bmg) \<and>
      0 < length (E bmg) \<and> is_mat (length (E bmg)) d_e (E bmg) \<and>
      length (a2b bmg) = length (V bmg) \<and>
      list_all (list_all (in_range (length (E bmg)))) (a2b bmg) \<and>
      length (b2a bmg) = length (E bmg) \<and>
      list_all (in_range (length (V bmg))) (b2a bmg) \<and>
      length (b2revb bmg) = length (E bmg) \<and>
      list_all (in_range (length (E bmg))) (b2revb bmg) \<and>
      map length (a2a bmg) = map length (a2b bmg) \<and>
      list_all (list_all (in_range (length (V bmg)))) (a2a bmg))"

text \<open>
  \<open>descriptor_ok dv n V_d\<close>: the optional descriptor matrix fits a block configured with
  the optional descriptor width \<open>dv\<close> on a batch of \<open>n\<close> vertex rows. \<open>encoded_width\<close>
  is the row width of the encoding for hidden width \<open>d_h\<close>.
\<close>

definition descriptor_ok :: "nat option \<Rightarrow> nat \<Rightarrow> mat option \<Rightarrow> bool" where
  "descriptor_ok dv n V_d =
     (case V_d of None \<Rightarrow> True
      | Some Vd \<Rightarrow> (case dv of None \<Rightarrow> False | Some d \<Rightarrow> is_mat n d Vd))"

definition encoded_width :: "nat \<Rightarrow> nat option \<Rightarrow> mat option \<Rightarrow> nat" where
  "encoded_width d_h dv V_d =
     (case V_d of None \<Rightarrow> d_h
      | Some Vd \<Rightarrow> (case dv of None \<Rightarrow> d_h | Some d \<Rightarrow> d_h + d))"

section \<open>Concrete blocks and batches\<close>

text \<open>
  The inputs at which the theorems below are evaluated. \<open>relu_only\<close> stands for an
  activation lookup that knows the name \<^verbatim>\<open>relu\<close>; \<open>keep_all\<close> are dropout draws that
  keep every entry; \<open>const_linear w c\<close> are initial values with every weight \<open>w\<close> and
  every bias entry \<open>c\<close>.
\<close>

definition relu :: "real \<Rightarrow> real" where
  "relu x = max 0 x"

definition relu_only :: "string \<Rightarrow> error + (real \<Rightarrow> real)" where
  "relu_only s = (if s = ''relu'' then Inr relu else Inl ValueError)"

definition keep_all :: "nat \<Rightarrow> nat \<Rightarrow> nat \<Rightarrow> bool" where
  "keep_all k i j = True"

definition const_linear :: "real \<Rightarrow> real \<Rightarrow> raw_linear" where
  "const_linear w c = (\<lambda>j i. w, \<lambda>j. c)"

definition th_ones :: initial_weights where
  "th_ones = \<lparr> init_W_i = const_linear 1 0, init_W_h = const_linear 1 0,
               init_W_o = const_linear 1 0, init_W_vd = const_linear (- 1) 0 \<rparr>"

definition th_bias :: initial_weights where
  "th_bias = \<lparr> init_W_i = const_linear 1 1, init_W_h = const_linear 1 1,
               init_W_o = const_linear 1 0, init_W_vd = const_linear 1 0 \<rparr>"

text \<open>
  \<open>bmg2\<close>: one molecule of two atoms and one bond, that is the directed edges
  \<open>1: 1 \<rightarrow> 2\<close> and \<open>2: 2 \<rightarrow> 1\<close>, with one feature per atom and per edge. Row 0 of
  every tensor is the sentinel; \<open>a2b\<close> lists for each atom the edges that end there and
  \<open>b2a\<close> gives the atom an edge starts from.
\<close>

definition bmg2 :: BatchMolGraph where
  "bmg2 = \<lparr> V = [[0], [1], [2]], E = [[0], [1], [3]], a2b = [[0], [2], [1]],
            b2a = [0, 1, 2], b2revb = [0, 2, 1], a2a = [[0], [2], [1]] \<rparr>"

text \<open>
  \<open>bmg3\<close>: one molecule that is a chain of three atoms \<open>1 - 2 - 3\<close>, with the directed
  edges \<open>1: 1 \<rightarrow> 2\<close>, \<open>2: 2 \<rightarrow> 1\<close>, \<open>3: 2 \<rightarrow> 3\<close> and \<open>4: 3 \<rightarrow> 2\<close>. The neighbour lists
  of the end atoms are padded with the sentinel index 0.
\<close>

definition bmg3 :: BatchMolGraph where
  "bmg3 = \<lparr> V = [[0], [1], [2], [3]], E = [[0], [1], [2], [3], [4]],
            a2b = [[0, 0], [2, 0], [1, 4], [3, 0]],
            b2a = [0, 1, 2, 2, 3], b2revb = [0, 2, 1, 4, 3],
            a2a = [[0, 0], [2, 0], [1, 3], [2, 0]] \<rparr>"

text \<open>\<open>bmg2\<close> with a reverse map that is not an involution, and a batch of no molecule.\<close>

definition bmg_noninv :: BatchMolGraph where
  "bmg_noninv = bmg2 \<lparr> b2revb := [0, 1, 1] \<rparr>"

definition bmg_empty :: BatchMolGraph where
  "bmg_empty = \<lparr> V = [[0]], E = [[0]], a2b = [[0]], b2a = [0], b2revb = [0], a2a = [[0]] \<rparr>"

text \<open>
  The blocks that the constructors return for \<open>d_v = 1\<close>, \<open>d_e = 1\<close>, \<open>d_h = 2\<close>, the
  activation \<^verbatim>\<open>relu\<close>, dropout probability 0 and the initial values \<open>th_ones\<close>:
  \<open>bond_block dep und dv\<close> and \<open>atom_block dep und dv\<close> for depth \<open>dep\<close>, undirected
  flag \<open>und\<close> and optional descriptor width \<open>dv\<close>.
\<close>

definition bond_block :: "int \<Rightarrow> bool \<Rightarrow> nat option \<Rightarrow> block" where
  "bond_block dep und dv =
     \<lparr> depth = dep, undirected = und, dropout = 0, training = True, tau = relu,
       priv_output_dim = (case dv of None \<Rightarrow> 2 | Some d \<Rightarrow> 2 + d), d_vd = dv,
       W_vd = (case dv of None \<Rightarrow> None
               | Some d \<Rightarrow> Some (Linear_init (2 + d) (2 + d) True (const_linear (- 1) 0))),
       W_i = Linear_init 1 2 False (const_linear 1 0),
       W_h = Linear_init 2 2 False (const_linear 1 0),
       W_o = Linear_init 3 2 True (const_linear 1 0) \<rparr>"

definition atom_block :: "int \<Rightarrow> bool \<Rightarrow> nat option \<Rightarrow> block" where
  "atom_block dep und dv =
     \<lparr> depth = dep, undirected = und, dropout = 0, training = True, tau = relu,
       priv_output_dim = (case dv of None \<Rightarrow> 2 | Some d \<Rightarrow> 2 + d), d_vd = dv,
       W_vd = (case dv of None \<Rightarrow> None
               | Some d \<Rightarrow> Some (Linear_init (2 + d) (2 + d) True (const_linear (- 1) 0))),
       W_i = Linear_init 1 2 False (const_linear 1 0),
       W_h = Linear_init 3 2 False (const_linear 1 0),
       W_o = Linear_init 3 2 True (const_linear 1 0) \<rparr>"

section \<open>The operations as the documentation words them\<close>

text \<open>
  The docstring of \<^verbatim>\<open>finalize\<close> gives the second step as
  \<^verbatim>\<open>H_v = dropout(tau(W_vd([H_v, V_d])))\<close>. \<open>finalize_documented\<close> is \<^verbatim>\<open>finalize\<close> with
  the activation applied to the output of \<open>W_vd\<close>, as documented; everything else is as in
  \<open>finalize\<close>.
\<close>

definition fuse_documented ::
  "block \<Rightarrow> (nat \<Rightarrow> nat \<Rightarrow> nat \<Rightarrow> bool) \<Rightarrow> nat \<Rightarrow> mat \<Rightarrow> mat \<Rightarrow> error + mat" where
  "fuse_documented blk keep k H_v Vd =
     ebind (cat1 H_v Vd) (\<lambda>H_vd.
       (case W_vd blk of None \<Rightarrow> Inl AttributeError
        | Some L \<Rightarrow> ebind (Linear_forward L H_vd) (\<lambda>H.
            Inr (block_dropout blk keep k (activate (tau blk) H)))))"

definition finalize_documented ::
  "block \<Rightarrow> (nat \<Rightarrow> nat \<Rightarrow> nat \<Rightarrow> bool) \<Rightarrow> nat \<Rightarrow> mat \<Rightarrow> mat \<Rightarrow> mat option \<Rightarrow> error + mat" where
  "finalize_documented blk keep k M_v Vx V_d =
     ebind (cat1 Vx M_v) (\<lambda>VM.
     ebind (Linear_forward (W_o blk) VM) (\<lambda>H.
       (let H_v = block_dropout blk keep k (activate (tau blk) H) in
        (case V_d of None \<Rightarrow> Inr H_v
         | Some Vd \<Rightarrow>
            (case fuse_documented blk keep (Suc k) H_v Vd of
               Inr H' \<Rightarrow> Inr H'
             | Inl e \<Rightarrow>
                 (if e = RuntimeError
                  then (case d_vd blk of None \<Rightarrow> Inl AttributeError
                        | Some d \<Rightarrow> Inl (InvalidShapeError ''V_d'' (shape Vd) [length H_v, d]))
                  else Inl e))))))"

text \<open>
  The message on a directed edge in the words of the data model: \<open>origin\<close> is the atom
  an edge starts from (\<open>b2a\<close>), \<open>reverse\<close> its reverse edge (\<open>b2revb\<close>), and the
  \<open>destination\<close> of an edge is the origin of its reverse. \<open>incoming_sum d H bmg v\<close> adds
  up the states \<open>H\<close> of the edges that \<open>a2b\<close> lists for the atom \<open>v\<close>, and
  \<open>message_at d H bmg v e\<close> takes the state of the reverse edge of \<open>e\<close> away from it.
\<close>

definition origin :: "BatchMolGraph \<Rightarrow> nat \<Rightarrow> nat" where
  "origin bmg e = nat (b2a bmg ! e)"

definition reverse :: "BatchMolGraph \<Rightarrow> nat \<Rightarrow> nat" where
  "reverse bmg e = nat (b2revb bmg ! e)"

definition destination :: "BatchMolGraph \<Rightarrow> nat \<Rightarrow> nat" where
  "destination bmg e = origin bmg (reverse bmg e)"

definition incoming_sum :: "nat \<Rightarrow> mat \<Rightarrow> BatchMolGraph \<Rightarrow> nat \<Rightarrow> vec" where
  "incoming_sum d H bmg v = foldr vadd (map (\<lambda>i. H ! nat i) (a2b bmg ! v)) (zeros d)"

definition vsub :: "vec \<Rightarrow> vec \<Rightarrow> vec" where
  "vsub x y = map2 (-) x y"

definition message_at :: "nat \<Rightarrow> mat \<Rightarrow> BatchMolGraph \<Rightarrow> nat \<Rightarrow> nat \<Rightarrow> vec" where
  "message_at d H bmg v e = vsub (incoming_sum d H bmg v) (H ! reverse bmg e)"

section \<open>The sentinel convention\<close>


definition aggregate :: "mat \<Rightarrow> int list list \<Rightarrow> error + mat" where
  "aggregate H idx = ebind (gather H idx) (\<lambda>T. Inr (sum1 (width H) T))"



section \<open>Shape lemmas\<close>

lemma is_mat_length: "is_mat n d M \<Longrightarrow> length M = n"
  by (simp add: is_mat_def)

lemma is_mat_row: "is_mat n d M \<Longrightarrow> i < n \<Longrightarrow> length (M ! i) = d"
  by (simp add: is_mat_def list_all_length)

lemma is_mat_width: "is_mat n d M \<Longrightarrow> 0 < n \<Longrightarrow> width M = d"
  by (cases M) (auto simp: is_mat_def width_def)

lemma ebind_Inr [simp]: "ebind (Inr v) f = f v"
  by (simp add: ebind_def)

lemma ebind_Inl [simp]: "ebind (Inl e) f = Inl e"
  by (simp add: ebind_def)

lemma ebind_eq_Inr: "ebind x f = Inr y \<longleftrightarrow> (\<exists>v. x = Inr v \<and> f v = Inr y)"
  by (cases x) simp_all

lemma Linear_forward_shape:
  "Linear_forward L X = Inr Y \<Longrightarrow> is_mat (length X) (out_features L) Y"
  by (auto simp: Linear_forward_def linear_row_def is_mat_def list_all_iff split: if_splits)

lemma Linear_forward_ok:
  "is_mat n (in_features L) X \<Longrightarrow> Linear_forward L X = Inr (map (linear_row L) X)"
  by (simp add: Linear_forward_def is_mat_def)

lemma activate_is_mat: "is_mat n d X \<Longrightarrow> is_mat n d (activate t X)"
  by (simp add: activate_def is_mat_def list_all_iff)

lemma dropout_is_mat: "is_mat n d X \<Longrightarrow> is_mat n d (dropout_forward p tr kept X)"
  by (auto simp: dropout_forward_def is_mat_def list_all_iff set_zip)

lemma block_dropout_is_mat: "is_mat n d X \<Longrightarrow> is_mat n d (block_dropout blk keep k X)"
  by (simp add: block_dropout_def dropout_is_mat)

lemma cat1_shape: "cat1 A B = Inr C \<Longrightarrow> length C = length A"
  by (auto simp: cat1_def split: if_splits)

lemma cat1_ok:
  "is_mat n a A \<Longrightarrow> is_mat n b B \<Longrightarrow> \<exists>C. cat1 A B = Inr C \<and> is_mat n (a + b) C"
  by (auto simp: cat1_def is_mat_def list_all_length)

lemma cat1_width:
  "is_mat n a A \<Longrightarrow> cat1 A B = Inr C \<Longrightarrow> list_all (\<lambda>r. length r = w) C \<Longrightarrow> 0 < n \<Longrightarrow> w = a + width B"
  apply (cases A; cases B)
  apply (auto simp: cat1_def is_mat_def width_def split: if_splits)
  done

lemma finalize_shape:
  assumes "finalize blk keep k M_v Vx V_d = Inr H"
  shows "is_mat (length Vx)
           (case V_d of None \<Rightarrow> out_features (W_o blk)
            | Some Vd \<Rightarrow> (case W_vd blk of None \<Rightarrow> 0 | Some L \<Rightarrow> out_features L)) H"
proof -
  from assms obtain VM H1 where vm: "cat1 Vx M_v = Inr VM"
    and h1: "Linear_forward (W_o blk) VM = Inr H1"
    and rest: "(let H_v = block_dropout blk keep k (activate (tau blk) H1) in
        (case V_d of None \<Rightarrow> Inr H_v
         | Some Vd \<Rightarrow>
            (case fuse blk keep (Suc k) H_v Vd of
               Inr H' \<Rightarrow> Inr H'
             | Inl e \<Rightarrow>
                 (if e = RuntimeError
                  then (case d_vd blk of None \<Rightarrow> Inl AttributeError
                        | Some d \<Rightarrow> Inl (InvalidShapeError ''V_d'' (shape Vd) [length H_v, d]))
                  else Inl e)))) = Inr H"
    unfolding finalize_def ebind_eq_Inr by blast
  define H_v where "H_v = block_dropout blk keep k (activate (tau blk) H1)"
  have m1: "is_mat (length Vx) (out_features (W_o blk)) H_v"
    unfolding H_v_def using Linear_forward_shape[OF h1] cat1_shape[OF vm]
    by (simp add: block_dropout_is_mat activate_is_mat)
  show ?thesis
  proof (cases V_d)
    case None
    with rest m1 show ?thesis by (simp add: H_v_def)
  next
    case (Some Vd)
    with rest have f: "fuse blk keep (Suc k) H_v Vd = Inr H"
      by (auto simp: H_v_def Let_def split: sum.splits if_splits option.splits)
    then obtain L H_vd H2 where c: "cat1 H_v Vd = Inr H_vd" and L: "W_vd blk = Some L"
      and h2: "Linear_forward L H_vd = Inr H2" and H: "H = block_dropout blk keep (Suc k) H2"
      by (auto simp: fuse_def ebind_eq_Inr split: option.splits)
    have "is_mat (length Vx) (out_features L) H"
      using Linear_forward_shape[OF h2] cat1_shape[OF c] m1 H
      by (simp add: block_dropout_is_mat is_mat_length)
    with Some L show ?thesis by simp
  qed
qed

lemma in_range_valid: "in_range n i \<Longrightarrow> valid_index n i"
  by (simp add: in_range_def valid_index_def)

lemma in_range_norm: "in_range n i \<Longrightarrow> norm_index n i = nat i \<and> nat i < n"
  by (auto simp: in_range_def norm_index_def)

lemma list_all_in_range_valid: "list_all (in_range n) idx \<Longrightarrow> list_all (valid_index n) idx"
  by (induction idx) (simp_all add: in_range_valid)

lemma index_select_ok:
  assumes "is_mat n d H" and "list_all (in_range n) idx"
  shows "\<exists>R. index_select H idx = Inr R \<and> is_mat (length idx) d R"
proof -
  have "list_all (valid_index (length H)) idx"
    using assms by (simp add: is_mat_length list_all_in_range_valid)
  moreover have "is_mat (length idx) d (map (\<lambda>i. H ! norm_index (length H) i) idx)"
    using assms by (auto simp: is_mat_def list_all_iff in_range_norm)
  ultimately show ?thesis by (simp add: index_select_def)
qed

lemma vadd_length: "length x = d \<Longrightarrow> length y = d \<Longrightarrow> length (vadd x y) = d"
  by (simp add: vadd_def)

lemma foldr_vadd_length:
  "list_all (\<lambda>r. length r = d) rows \<Longrightarrow> length (foldr vadd rows (zeros d)) = d"
  by (induction rows) (simp_all add: zeros_def vadd_def)

lemma gather_sum_ok:
  assumes "is_mat n d H" and "list_all (list_all (in_range n)) idx"
  shows "\<exists>T. gather H idx = Inr T \<and> is_mat (length idx) d (sum1 d T)"
proof -
  have v: "list_all (list_all (valid_index (length H))) idx"
    using assms by (auto simp: is_mat_length list_all_iff in_range_valid)
  have "list_all (\<lambda>r. length r = d) (map (\<lambda>i. H ! norm_index (length H) i) nb)"
    if "nb \<in> set idx" for nb
    using that assms by (auto simp: is_mat_def list_all_iff in_range_norm)
  then have "is_mat (length idx) d (sum1 d (map (map (\<lambda>i. H ! norm_index (length H) i)) idx))"
    by (simp add: is_mat_def sum1_def list_all_iff foldr_vadd_length)
  with v show ?thesis by (simp add: gather_def)
qed

lemma collect_map2_rows:
  "length A = length B \<Longrightarrow> list_all (\<lambda>r. length r = d) A \<Longrightarrow> list_all (\<lambda>r. length r = d) B \<Longrightarrow>
   collect (map2 (broadcast_row f) A B) = Inr (map2 (map2 f) A B)"
  by (induction A B rule: list_induct2) (simp_all add: broadcast_row_def)

lemma broadcast_op_ok:
  assumes "is_mat n d A" and "is_mat n d B"
  shows "broadcast_op f A B = Inr (map2 (map2 f) A B) \<and> is_mat n d (map2 (map2 f) A B)"
proof -
  have "length A = length B" "list_all (\<lambda>r. length r = d) A" "list_all (\<lambda>r. length r = d) B"
    using assms by (simp_all add: is_mat_def)
  then have "broadcast_op f A B = Inr (map2 (map2 f) A B)"
    by (simp add: broadcast_op_def collect_map2_rows[where d = d])
  moreover have "is_mat n d (map2 (map2 f) A B)"
    using assms by (auto simp: is_mat_def list_all_length)
  ultimately show ?thesis by simp
qed

lemma halve_is_mat: "is_mat n d X \<Longrightarrow> is_mat n d (halve X)"
  by (simp add: halve_def is_mat_def list_all_iff)

lemma symmetrize_ok:
  assumes "is_mat n d H" and "length (b2revb bmg) = n" and "list_all (in_range n) (b2revb bmg)"
  shows "\<exists>S. symmetrize bmg H = Inr S \<and> is_mat n d S"
proof -
  from index_select_ok[OF assms(1,3)] obtain R
    where R: "index_select H (b2revb bmg) = Inr R" "is_mat n d R"
    using assms(2) by auto
  from broadcast_op_ok[OF assms(1) R(2)] R(1) show ?thesis
    by (simp add: symmetrize_def halve_is_mat)
qed

lemma Bond_message_ok:
  assumes wf: "wf_batch d_v d_e bmg" and H: "is_mat (length (E bmg)) d H"
  shows "\<exists>M. Bond_message bmg H = Inr M \<and> is_mat (length (E bmg)) d M"
proof -
  have w: "width H = d"
    using wf H by (simp add: wf_batch_def is_mat_width)
  have a: "list_all (list_all (in_range (length (E bmg)))) (a2b bmg)"
    and la: "length (a2b bmg) = length (V bmg)"
    and b: "list_all (in_range (length (V bmg))) (b2a bmg)"
    and lb: "length (b2a bmg) = length (E bmg)"
    and r: "list_all (in_range (length (E bmg))) (b2revb bmg)"
    and lr: "length (b2revb bmg) = length (E bmg)"
    using wf by (simp_all add: wf_batch_def)
  from gather_sum_ok[OF H a] la obtain T
    where T: "gather H (a2b bmg) = Inr T" "is_mat (length (V bmg)) d (sum1 d T)"
    by auto
  from index_select_ok[OF T(2) b] lb obtain M1
    where M1: "index_select (sum1 d T) (b2a bmg) = Inr M1" "is_mat (length (E bmg)) d M1"
    by auto
  from index_select_ok[OF H r] lr obtain R
    where R: "index_select H (b2revb bmg) = Inr R" "is_mat (length (E bmg)) d R"
    by auto
  from broadcast_op_ok[OF M1(2) R(2)] T(1) M1(1) R(1) w show ?thesis
    by (simp add: Bond_message_def)
qed

lemma update_ok:
  assumes "is_mat n (in_features (W_h blk)) M" and "is_mat n (out_features (W_h blk)) H_0"
  shows "\<exists>H. update blk keep k H_0 M = Inr H \<and> is_mat n (out_features (W_h blk)) H"
proof -
  have l: "Linear_forward (W_h blk) M = Inr (map (linear_row (W_h blk)) M)"
    using assms(1) by (rule Linear_forward_ok)
  have "is_mat n (out_features (W_h blk)) (map (linear_row (W_h blk)) M)"
    using Linear_forward_shape[OF l] assms(1) by (simp add: is_mat_length)
  from broadcast_op_ok[OF assms(2) this] l show ?thesis
    by (simp add: update_def block_dropout_is_mat activate_is_mat)
qed

lemma Bond_round_ok:
  assumes wf: "wf_batch d_v d_e bmg"
    and dims: "in_features (W_h blk) = d" "out_features (W_h blk) = d"
    and H0: "is_mat (length (E bmg)) d H_0"
    and H: "is_mat (length (E bmg)) d H"
  shows "\<exists>H'. Bond_round blk keep bmg H_0 k H = Inr H' \<and> is_mat (length (E bmg)) d H'"
proof -
  have "\<exists>S. (if undirected blk then symmetrize bmg H else Inr H) = Inr S \<and>
            is_mat (length (E bmg)) d S"
    using symmetrize_ok[OF H, of bmg] wf H by (simp add: wf_batch_def)
  then obtain S where S: "(if undirected blk then symmetrize bmg H else Inr H) = Inr S"
    "is_mat (length (E bmg)) d S" by blast
  from Bond_message_ok[OF wf S(2)] obtain M
    where M: "Bond_message bmg S = Inr M" "is_mat (length (E bmg)) d M" by blast
  from update_ok[of "length (E bmg)" blk M H_0 keep k] M(2) H0 dims S(1) M(1)
  show ?thesis by (simp add: Bond_round_def)
qed

lemma Bond_loop_ok:
  assumes wf: "wf_batch d_v d_e bmg"
    and dims: "in_features (W_h blk) = d" "out_features (W_h blk) = d"
    and H0: "is_mat (length (E bmg)) d H_0"
  shows "is_mat (length (E bmg)) d H \<Longrightarrow>
         \<exists>H'. Bond_loop blk keep bmg H_0 n k H = Inr H' \<and> is_mat (length (E bmg)) d H'"
proof (induction n arbitrary: k H)
  case 0
  then show ?case by simp
next
  case (Suc n)
  from Bond_round_ok[OF wf dims H0 Suc.prems] obtain H1
    where H1: "Bond_round blk keep bmg H_0 k H = Inr H1" "is_mat (length (E bmg)) d H1"
    by blast
  from Suc.IH[OF H1(2)] H1(1) show ?case by simp
qed

lemma finalize_ok:
  assumes V: "is_mat n d_v Vx" and M: "is_mat n d_h M_v"
    and Wo: "in_features (W_o blk) = d_v + d_h"
    and Vd: "case V_d of None \<Rightarrow> True
             | Some Vd \<Rightarrow> \<exists>d L. is_mat n d Vd \<and> W_vd blk = Some L \<and>
                 in_features L = out_features (W_o blk) + d"
  shows "\<exists>H. finalize blk keep k M_v Vx V_d = Inr H"
proof -
  from cat1_ok[OF V M] obtain VM where VM: "cat1 Vx M_v = Inr VM" "is_mat n (d_v + d_h) VM"
    by blast
  have l: "Linear_forward (W_o blk) VM = Inr (map (linear_row (W_o blk)) VM)"
    using VM(2) Wo by (simp add: Linear_forward_ok)
  define H_v where "H_v = block_dropout blk keep k (activate (tau blk) (map (linear_row (W_o blk)) VM))"
  have Hv: "is_mat n (out_features (W_o blk)) H_v"
    unfolding H_v_def using Linear_forward_shape[OF l] VM(2)
    by (simp add: block_dropout_is_mat activate_is_mat is_mat_length)
  show ?thesis
  proof (cases V_d)
    case None
    with VM(1) l show ?thesis by (simp add: finalize_def)
  next
    case (Some Vd)
    with Vd obtain d L where d: "is_mat n d Vd" "W_vd blk = Some L"
      "in_features L = out_features (W_o blk) + d" by auto
    from cat1_ok[OF Hv d(1)] obtain C where C: "cat1 H_v Vd = Inr C"
      "is_mat n (out_features (W_o blk) + d) C" by blast
    have "Linear_forward L C = Inr (map (linear_row L) C)"
      using C(2) d(3) by (simp add: Linear_forward_ok)
    with C(1) d(2) have "\<exists>H. fuse blk keep (Suc k) H_v Vd = Inr H"
      by (simp add: fuse_def)
    with VM(1) l Some show ?thesis
      by (auto simp: finalize_def H_v_def Let_def)
  qed
qed

lemma gather_ok:
  assumes "is_mat n d H" and "list_all (list_all (in_range n)) idx"
  shows "\<exists>T. gather H idx = Inr T \<and> map length T = map length idx \<and>
             list_all (list_all (\<lambda>r. length r = d)) T"
proof -
  have v: "list_all (list_all (valid_index (length H))) idx"
    using assms by (auto simp: is_mat_length list_all_iff in_range_valid)
  have "list_all (list_all (\<lambda>r. length r = d)) (map (map (\<lambda>i. H ! norm_index (length H) i)) idx)"
    using assms by (auto simp: is_mat_def list_all_iff in_range_norm)
  with v show ?thesis by (simp add: gather_def)
qed

lemma map2_append_rows:
  "length A = length B \<Longrightarrow> list_all (\<lambda>r. length r = a) A \<Longrightarrow> list_all (\<lambda>r. length r = b) B \<Longrightarrow>
   list_all (\<lambda>r. length r = a + b) (map2 (@) A B)"
  by (induction A B rule: list_induct2) simp_all

lemma cat2_sum_ok:
  assumes "map length A = map length B"
    and "list_all (list_all (\<lambda>r. length r = a)) A"
    and "list_all (list_all (\<lambda>r. length r = b)) B"
  shows "\<exists>C. cat2 A B = Inr C \<and> is_mat (length A) (a + b) (sum1 (a + b) C)"
proof -
  have len: "length A = length B"
    using assms(1) by (metis length_map)
  have "list_all (\<lambda>r. length r = a + b) (map2 (@) (A ! i) (B ! i))" if "i < length A" for i
  proof -
    have "length (A ! i) = length (B ! i)"
      using assms(1) that len by (metis nth_map)
    moreover have "list_all (\<lambda>r. length r = a) (A ! i)" "list_all (\<lambda>r. length r = b) (B ! i)"
      using assms(2,3) that len by (simp_all add: list_all_length)
    ultimately show ?thesis by (rule map2_append_rows)
  qed
  then have "is_mat (length A) (a + b) (sum1 (a + b) (map2 (map2 (@)) A B))"
    using len by (simp add: is_mat_def sum1_def list_all_length foldr_vadd_length)
  with assms(1) show ?thesis by (simp add: cat2_def)
qed

lemma Atom_message_ok:
  assumes wf: "wf_batch d_v d_e bmg" and H: "is_mat (length (V bmg)) d H"
  shows "\<exists>M. Atom_message bmg H = Inr M \<and> is_mat (length (V bmg)) (d + d_e) M"
proof -
  have "0 < length (V bmg)" "0 < length (E bmg)" "is_mat (length (E bmg)) d_e (E bmg)"
    using wf by (simp_all add: wf_batch_def)
  then have w: "width H = d" "width (E bmg) = d_e"
    using H by (simp_all add: is_mat_width[where n = "length (V bmg)"]
        is_mat_width[where n = "length (E bmg)"])
  have a: "list_all (list_all (in_range (length (E bmg)))) (a2b bmg)"
    and la: "length (a2b bmg) = length (V bmg)"
    and aa: "list_all (list_all (in_range (length (V bmg)))) (a2a bmg)"
    and laa: "map length (a2a bmg) = map length (a2b bmg)"
    and Em: "is_mat (length (E bmg)) d_e (E bmg)"
    using wf by (simp_all add: wf_batch_def)
  from gather_ok[OF H aa] obtain HA where HA: "gather H (a2a bmg) = Inr HA"
    "map length HA = map length (a2a bmg)" "list_all (list_all (\<lambda>r. length r = d)) HA"
    by blast
  from gather_ok[OF Em a] obtain EB where EB: "gather (E bmg) (a2b bmg) = Inr EB"
    "map length EB = map length (a2b bmg)" "list_all (list_all (\<lambda>r. length r = d_e)) EB"
    by blast
  have ml: "map length HA = map length EB"
    using HA(2) EB(2) laa by simp
  have lHA: "length HA = length (V bmg)"
    using HA(2) laa la by (metis length_map)
  from cat2_sum_ok[OF ml HA(3) EB(3)] HA(1) EB(1) w lHA show ?thesis
    by (auto simp: Atom_message_def)
qed

lemma Atom_round_ok:
  assumes wf: "wf_batch d_v d_e bmg"
    and dims: "in_features (W_h blk) = d + d_e" "out_features (W_h blk) = d"
    and und: "\<not> undirected blk"
    and H0: "is_mat (length (V bmg)) d H_0"
    and H: "is_mat (length (V bmg)) d H"
  shows "\<exists>H'. Atom_round blk keep bmg H_0 k H = Inr H' \<and> is_mat (length (V bmg)) d H'"
proof -
  from Atom_message_ok[OF wf H] obtain M
    where M: "Atom_message bmg H = Inr M" "is_mat (length (V bmg)) (d + d_e) M" by blast
  from update_ok[of "length (V bmg)" blk M H_0 keep k] M(2) H0 dims und M(1)
  show ?thesis by (simp add: Atom_round_def)
qed

lemma Atom_loop_ok:
  assumes wf: "wf_batch d_v d_e bmg"
    and dims: "in_features (W_h blk) = d + d_e" "out_features (W_h blk) = d"
    and und: "\<not> undirected blk"
    and H0: "is_mat (length (V bmg)) d H_0"
  shows "is_mat (length (V bmg)) d H \<Longrightarrow>
         \<exists>H'. Atom_loop blk keep bmg H_0 n k H = Inr H' \<and> is_mat (length (V bmg)) d H'"
proof (induction n arbitrary: k H)
  case 0
  then show ?case by simp
next
  case (Suc n)
  from Atom_round_ok[OF wf dims und H0 Suc.prems] obtain H1
    where H1: "Atom_round blk keep bmg H_0 k H = Inr H1" "is_mat (length (V bmg)) d H1"
    by blast
  from Suc.IH[OF H1(2)] H1(1) show ?case by simp
qed

lemma Bond_forward_ok:
  assumes wf: "wf_batch d_v d_e bmg"
    and dims: "in_features (W_i blk) = d_e" "out_features (W_i blk) = d_h"
      "in_features (W_h blk) = d_h" "out_features (W_h blk) = d_h"
      "in_features (W_o blk) = d_v + d_h"
    and Vd: "case V_d of None \<Rightarrow> True
             | Some Vd \<Rightarrow> \<exists>d L. is_mat (length (V bmg)) d Vd \<and> W_vd blk = Some L \<and>
                 in_features L = out_features (W_o blk) + d"
  shows "\<exists>H. Bond_forward blk keep bmg V_d = Inr H"
proof -
  have Em: "is_mat (length (E bmg)) d_e (E bmg)" and Vm: "is_mat (length (V bmg)) d_v (V bmg)"
    and a: "list_all (list_all (in_range (length (E bmg)))) (a2b bmg)"
    and la: "length (a2b bmg) = length (V bmg)"
    using wf by (simp_all add: wf_batch_def)
  have l: "Linear_forward (W_i blk) (E bmg) = Inr (map (linear_row (W_i blk)) (E bmg))"
    using Em dims(1) by (simp add: Linear_forward_ok)
  define H_0 where "H_0 = map (linear_row (W_i blk)) (E bmg)"
  have H0: "is_mat (length (E bmg)) d_h H_0"
    using Linear_forward_shape[OF l] dims(2) by (simp add: H_0_def)
  from Bond_loop_ok[OF wf dims(3,4) H0 activate_is_mat[OF H0]] obtain H_e
    where He: "Bond_loop blk keep bmg H_0 (rounds blk) 0 (activate (tau blk) H_0) = Inr H_e"
      "is_mat (length (E bmg)) d_h H_e" by blast
  have w: "width H_e = d_h"
    using wf He(2) by (simp add: wf_batch_def is_mat_width)
  from gather_sum_ok[OF He(2) a] la obtain T
    where T: "gather H_e (a2b bmg) = Inr T" "is_mat (length (V bmg)) d_h (sum1 d_h T)"
    by auto
  from finalize_ok[OF Vm T(2) dims(5) Vd] l He(1) T(1) w show ?thesis
    by (simp add: Bond_forward_def H_0_def)
qed

lemma Atom_forward_ok:
  assumes wf: "wf_batch d_v d_e bmg"
    and dims: "in_features (W_i blk) = d_v" "out_features (W_i blk) = d_h"
      "in_features (W_h blk) = d_h + d_e" "out_features (W_h blk) = d_h"
      "in_features (W_o blk) = d_v + d_h"
    and und: "\<not> undirected blk"
    and Vd: "case V_d of None \<Rightarrow> True
             | Some Vd \<Rightarrow> \<exists>d L. is_mat (length (V bmg)) d Vd \<and> W_vd blk = Some L \<and>
                 in_features L = out_features (W_o blk) + d"
  shows "\<exists>H. Atom_forward blk keep bmg V_d = Inr H"
proof -
  have Vm: "is_mat (length (V bmg)) d_v (V bmg)"
    and aa: "list_all (list_all (in_range (length (V bmg)))) (a2a bmg)"
    and laa: "map length (a2a bmg) = map length (a2b bmg)"
    and la: "length (a2b bmg) = length (V bmg)"
    using wf by (simp_all add: wf_batch_def)
  have la2: "length (a2a bmg) = length (V bmg)"
    using laa la by (metis length_map)
  have l: "Linear_forward (W_i blk) (V bmg) = Inr (map (linear_row (W_i blk)) (V bmg))"
    using Vm dims(1) by (simp add: Linear_forward_ok)
  define H_0 where "H_0 = map (linear_row (W_i blk)) (V bmg)"
  have H0: "is_mat (length (V bmg)) d_h H_0"
    using Linear_forward_shape[OF l] dims(2) by (simp add: H_0_def)
  from Atom_loop_ok[OF wf dims(3,4) und H0 activate_is_mat[OF H0]] obtain H_v
    where Hv: "Atom_loop blk keep bmg H_0 (rounds blk) 0 (activate (tau blk) H_0) = Inr H_v"
      "is_mat (length (V bmg)) d_h H_v" by blast
  have w: "width H_v = d_h"
    using wf Hv(2) by (simp add: wf_batch_def is_mat_width)
  from gather_sum_ok[OF Hv(2) aa] la2 obtain T
    where T: "gather H_v (a2a bmg) = Inr T" "is_mat (length (V bmg)) d_h (sum1 d_h T)"
    by auto
  from finalize_ok[OF Vm T(2) dims(5) Vd] l Hv(1) T(1) w show ?thesis
    by (simp add: Atom_forward_def H_0_def)
qed

section \<open>The constructed blocks\<close>

lemma Base_init_fields:
  assumes "Base_init g setup th_vd d_v d_e d_h b dep und p a dv = Inr blk"
  shows "depth blk = dep" and "undirected blk = und" and "dropout blk = p"
    and "training blk" and "g a = Inr (tau blk)"
    and "priv_output_dim blk = (case dv of None \<Rightarrow> d_h | Some d \<Rightarrow> d_h + d)"
    and "d_vd blk = dv"
    and "W_vd blk = (case dv of None \<Rightarrow> None
                     | Some d \<Rightarrow> Some (Linear_init (d_h + d) (d_h + d) True th_vd))"
    and "(W_i blk, W_h blk, W_o blk) = setup d_v d_e d_h b"
proof -
  obtain Wi Wh Wo where s: "setup d_v d_e d_h b = (Wi, Wh, Wo)"
    by (cases "setup d_v d_e d_h b") auto
  from assms obtain t where t: "g a = Inr t" and p: "\<not> (p < 0 \<or> 1 < p)"
    and blk: "blk = \<lparr> depth = dep, undirected = und, dropout = p, training = True, tau = t,
        priv_output_dim = (case dv of None \<Rightarrow> d_h | Some d \<Rightarrow> d_h + d), d_vd = dv,
        W_vd = (case dv of None \<Rightarrow> None
                | Some d \<Rightarrow> Some (Linear_init (d_h + d) (d_h + d) True th_vd)),
        W_i = Wi, W_h = Wh, W_o = Wo \<rparr>"
    by (auto simp: Base_init_def ebind_eq_Inr s split: if_splits)
  show "depth blk = dep" and "undirected blk = und" and "dropout blk = p"
    and "training blk" and "g a = Inr (tau blk)"
    and "priv_output_dim blk = (case dv of None \<Rightarrow> d_h | Some d \<Rightarrow> d_h + d)"
    and "d_vd blk = dv"
    and "W_vd blk = (case dv of None \<Rightarrow> None
                     | Some d \<Rightarrow> Some (Linear_init (d_h + d) (d_h + d) True th_vd))"
    and "(W_i blk, W_h blk, W_o blk) = setup d_v d_e d_h b"
    by (simp_all add: blk t s)
qed

lemma Base_init_ok:
  assumes "0 \<le> p" and "p \<le> 1" and "g a = Inr t"
  shows "\<exists>blk. Base_init g setup th_vd d_v d_e d_h b dep und p a dv = Inr blk"
  using assms by (auto simp: Base_init_def split: prod.splits)

lemma Bond_dims:
  assumes "BondMessageBlock g th d_v d_e d_h b dep und p a dv = Inr blk"
  shows "in_features (W_i blk) = d_e" and "out_features (W_i blk) = d_h"
    and "in_features (W_h blk) = d_h" and "out_features (W_h blk) = d_h"
    and "in_features (W_o blk) = d_v + d_h" and "out_features (W_o blk) = d_h"
    and "bias (W_i blk) = (if b then Some (snd (init_W_i th)) else None)"
    and "bias (W_h blk) = (if b then Some (snd (init_W_h th)) else None)"
  using Base_init_fields(9)[OF assms[unfolded BondMessageBlock_def]]
  by (simp_all add: Bond_setup_weight_matrices_def Linear_init_def)

lemma Atom_dims:
  assumes "AtomMessageBlock g th d_v d_e d_h b dep und p a dv = Inr blk"
  shows "in_features (W_i blk) = d_v" and "out_features (W_i blk) = d_h"
    and "in_features (W_h blk) = d_e + d_h" and "out_features (W_h blk) = d_h"
    and "in_features (W_o blk) = d_v + d_h" and "out_features (W_o blk) = d_h"
    and "bias (W_i blk) = (if b then Some (snd (init_W_i th)) else None)"
    and "bias (W_h blk) = (if b then Some (snd (init_W_h th)) else None)"
  using Base_init_fields(9)[OF assms[unfolded AtomMessageBlock_def]]
  by (simp_all add: Atom_setup_weight_matrices_def Linear_init_def)

lemma descriptor_ok_fits:
  assumes "descriptor_ok dv n V_d" and "d_vd blk = dv"
    and "W_vd blk = (case dv of None \<Rightarrow> None
                     | Some d \<Rightarrow> Some (Linear_init (d_h + d) (d_h + d) True th_vd))"
    and "out_features (W_o blk) = d_h"
  shows "case V_d of None \<Rightarrow> True
         | Some Vd \<Rightarrow> \<exists>d L. is_mat n d Vd \<and> W_vd blk = Some L \<and>
             in_features L = out_features (W_o blk) + d"
  using assms by (auto simp: descriptor_ok_def Linear_init_def split: option.splits)

lemma finalize_width:
  assumes "finalize blk keep k M_v Vx V_d = Inr H" and "out_features (W_o blk) = d_h"
    and "d_vd blk = dv"
    and "W_vd blk = (case dv of None \<Rightarrow> None
                     | Some d \<Rightarrow> Some (Linear_init (d_h + d) (d_h + d) True th_vd))"
  shows "is_mat (length Vx) (encoded_width d_h dv V_d) H"
proof -
  have "V_d \<noteq> None \<Longrightarrow> W_vd blk \<noteq> None"
    using assms(1)
    by (auto simp: finalize_def fuse_def ebind_eq_Inr Let_def cat1_def
        split: option.splits sum.splits if_splits)
  with finalize_shape[OF assms(1)] assms(2-4) show ?thesis
    by (auto simp: encoded_width_def Linear_init_def split: option.splits)
qed

section \<open>Evaluation of the concrete inputs\<close>

lemmas ex_defs = relu_def relu_only_def keep_all_def const_linear_def th_ones_def th_bias_def
  bmg2_def bmg3_def bmg_noninv_def bmg_empty_def bond_block_def atom_block_def

lemmas init_defs = BondMessageBlock_def AtomMessageBlock_def Base_init_def
  Bond_setup_weight_matrices_def Atom_setup_weight_matrices_def Linear_init_def

lemmas op_defs = ebind_def width_def shape_def cat1_def valid_index_def norm_index_def
  index_select_def gather_def vadd_def zeros_def sum1_def cat2_def broadcast_row_def
  broadcast_op_def halve_def linear_row_def Linear_forward_def activate_def
  dropout_entry_def dropout_forward_def block_dropout_def is_mat_def in_range_def

lemmas fw_defs = output_dim_def fuse_def finalize_def symmetrize_def Bond_message_def
  update_def Bond_round_def rounds_def Bond_forward_def Atom_message_def Atom_round_def
  Atom_forward_def

lemma bond_block_init:
  "BondMessageBlock relu_only th_ones 1 1 2 False dep und 0 ''relu'' dv = Inr (bond_block dep und dv)"
  by (simp add: ex_defs init_defs ebind_def split: option.splits)

lemma atom_block_init:
  "AtomMessageBlock relu_only th_ones 1 1 2 False dep und 0 ''relu'' dv = Inr (atom_block dep und dv)"
  by (simp add: ex_defs init_defs ebind_def split: option.splits)

lemma finalize_example:
  "finalize (bond_block 3 False (Some 1)) keep_all 0 [[0, 0], [3, 3], [1, 1]] [[0], [1], [2]]
     (Some [[0], [1], [1]]) = Inr [[0, 0, 0], [- 15, - 15, - 15], [- 9, - 9, - 9]]"
  by (simp add: ex_defs fw_defs op_defs Linear_init_def upt_rec numeral_eq_Suc)


section \<open>The descriptor check of finalize\<close>





lemma constructed_dims:
  assumes "BondMessageBlock g th d_v d_e d_h b dep und p a dv = Inr blk
         \<or> AtomMessageBlock g th d_v d_e d_h b dep und p a dv = Inr blk"
  shows "in_features (W_o blk) = d_v + d_h \<and> out_features (W_o blk) = d_h \<and>
         d_vd blk = dv \<and>
         W_vd blk = (case dv of None \<Rightarrow> None
                     | Some d \<Rightarrow> Some (Linear_init (d_h + d) (d_h + d) True (init_W_vd th)))"
  using assms
proof
  assume a: "BondMessageBlock g th d_v d_e d_h b dep und p a dv = Inr blk"
  from Base_init_fields(7,8)[OF a[unfolded BondMessageBlock_def]] Bond_dims(5,6)[OF a]
  show ?thesis by simp
next
  assume a: "AtomMessageBlock g th d_v d_e d_h b dep und p a dv = Inr blk"
  from Base_init_fields(7,8)[OF a[unfolded AtomMessageBlock_def]] Atom_dims(5,6)[OF a]
  show ?thesis by simp
qed


section \<open>Encoding a well-formed batch\<close>

lemma Bond_forward_finalize:
  assumes "Bond_forward blk keep bmg V_d = Inr H"
  shows "\<exists>k M. finalize blk keep k M (V bmg) V_d = Inr H"
  using assms unfolding Bond_forward_def ebind_eq_Inr by blast

lemma Atom_forward_finalize:
  assumes "Atom_forward blk keep bmg V_d = Inr H"
  shows "\<exists>k M. finalize blk keep k M (V bmg) V_d = Inr H"
  using assms unfolding Atom_forward_def ebind_eq_Inr by blast

lemma constructed_finalize_width:
  assumes c: "BondMessageBlock g th d_v d_e d_h b dep und p a dv = Inr blk
         \<or> AtomMessageBlock g th d_v d_e d_h b dep und p a dv = Inr blk"
    and f: "finalize blk keep k M Vx V_d = Inr H"
  shows "is_mat (length Vx) (encoded_width d_h dv V_d) H"
proof -
  note d = constructed_dims[OF c]
  from d have o: "out_features (W_o blk) = d_h" and v: "d_vd blk = dv"
    and w: "W_vd blk = (case dv of None \<Rightarrow> None
                     | Some d \<Rightarrow> Some (Linear_init (d_h + d) (d_h + d) True (init_W_vd th)))"
    by simp_all
  from finalize_width[OF f o v w] show ?thesis .
qed

lemma constructed_descriptor_fits:
  assumes c: "BondMessageBlock g th d_v d_e d_h b dep und p a dv = Inr blk
         \<or> AtomMessageBlock g th d_v d_e d_h b dep und p a dv = Inr blk"
    and ok: "descriptor_ok dv n V_d"
  shows "case V_d of None \<Rightarrow> True
         | Some Vd \<Rightarrow> \<exists>d L. is_mat n d Vd \<and> W_vd blk = Some L \<and>
             in_features L = out_features (W_o blk) + d"
proof -
  note d = constructed_dims[OF c]
  from d have o: "out_features (W_o blk) = d_h" and v: "d_vd blk = dv"
    and w: "W_vd blk = (case dv of None \<Rightarrow> None
                     | Some d \<Rightarrow> Some (Linear_init (d_h + d) (d_h + d) True (init_W_vd th)))"
    by simp_all
  from descriptor_ok_fits[OF ok v w o] show ?thesis .
qed

lemma Bond_encode_ok:
  assumes wf: "wf_batch d_v d_e bmg" and ok: "descriptor_ok dv (length (V bmg)) V_d"
    and c: "BondMessageBlock g th d_v d_e d_h b dep und p a dv = Inr blk"
  shows "\<exists>H. Bond_forward blk keep bmg V_d = Inr H \<and>
             is_mat (length (V bmg)) (encoded_width d_h dv V_d) H"
proof -
  from Bond_forward_ok[OF wf Bond_dims(1-5)[OF c] constructed_descriptor_fits[OF disjI1[OF c] ok]]
  obtain H where H: "Bond_forward blk keep bmg V_d = Inr H" by blast
  from Bond_forward_finalize[OF H] obtain k M
    where "finalize blk keep k M (V bmg) V_d = Inr H" by blast
  from constructed_finalize_width[OF disjI1[OF c] this] H show ?thesis by blast
qed

lemma Atom_encode_ok:
  assumes wf: "wf_batch d_v d_e bmg" and ok: "descriptor_ok dv (length (V bmg)) V_d"
    and c: "AtomMessageBlock g th d_v d_e d_h b dep False p a dv = Inr blk"
  shows "\<exists>H. Atom_forward blk keep bmg V_d = Inr H \<and>
             is_mat (length (V bmg)) (encoded_width d_h dv V_d) H"
proof -
  have u: "\<not> undirected blk"
    using Base_init_fields(2)[OF c[unfolded AtomMessageBlock_def]] by simp
  have h: "in_features (W_h blk) = d_h + d_e"
    using Atom_dims(3)[OF c] by simp
  from Atom_forward_ok[OF wf Atom_dims(1,2)[OF c] h Atom_dims(4,5)[OF c] u
      constructed_descriptor_fits[OF disjI2[OF c] ok]]
  obtain H where H: "Atom_forward blk keep bmg V_d = Inr H" by blast
  from Atom_forward_finalize[OF H] obtain k M
    where "finalize blk keep k M (V bmg) V_d = Inr H" by blast
  from constructed_finalize_width[OF disjI2[OF c] this] H show ?thesis by blast
qed

lemma wf_bmg2: "wf_batch 1 1 bmg2"
  by (simp add: wf_batch_def bmg2_def is_mat_def in_range_def)

lemma wf_bmg3: "wf_batch 1 1 bmg3"
  by (simp add: wf_batch_def bmg3_def is_mat_def in_range_def)

lemma bond_forward_bmg2:
  "Bond_forward (bond_block 3 False None) keep_all bmg2 None = Inr [[0, 0], [7, 7], [4, 4]]"
  by (simp add: ex_defs fw_defs op_defs Linear_init_def upt_rec numeral_eq_Suc)


section \<open>The message of the bond-centered block\<close>

lemma index_select_eq:
  assumes "list_all (in_range (length H)) idx"
  shows "index_select H idx = Inr (map (\<lambda>i. H ! nat i) idx)"
proof -
  have "list_all (valid_index (length H)) idx"
    using assms by (rule list_all_in_range_valid)
  moreover have "map (\<lambda>i. H ! norm_index (length H) i) idx = map (\<lambda>i. H ! nat i) idx"
    using assms by (auto simp: list_all_iff in_range_norm)
  ultimately show ?thesis by (simp add: index_select_def)
qed

lemma gather_eq:
  assumes "list_all (list_all (in_range (length H))) idx"
  shows "gather H idx = Inr (map (map (\<lambda>i. H ! nat i)) idx)"
proof -
  have "list_all (list_all (valid_index (length H))) idx"
    using assms by (auto simp: list_all_iff in_range_valid)
  moreover have "map (map (\<lambda>i. H ! norm_index (length H) i)) idx = map (map (\<lambda>i. H ! nat i)) idx"
    using assms by (auto simp: list_all_iff in_range_norm)
  ultimately show ?thesis by (simp add: gather_def)
qed

lemma Bond_message_nth:
  assumes wf: "wf_batch d_v d_e bmg" and H: "is_mat (length (E bmg)) d H"
    and e: "e < length (E bmg)"
  shows "\<exists>M. Bond_message bmg H = Inr M \<and> is_mat (length (E bmg)) d M \<and>
             M ! e = message_at d H bmg (origin bmg e) e"
proof -
  have lH: "length H = length (E bmg)"
    using H by (rule is_mat_length)
  have w: "width H = d"
    using wf H by (simp add: wf_batch_def is_mat_width)
  have a: "list_all (list_all (in_range (length H))) (a2b bmg)"
    and la: "length (a2b bmg) = length (V bmg)"
    and b: "list_all (in_range (length (V bmg))) (b2a bmg)"
    and lb: "length (b2a bmg) = length (E bmg)"
    and r: "list_all (in_range (length H)) (b2revb bmg)"
    and lr: "length (b2revb bmg) = length (E bmg)"
    using wf lH by (simp_all add: wf_batch_def)
  define T where "T = map (map (\<lambda>i. H ! nat i)) (a2b bmg)"
  define S where "S = sum1 d T"
  define M1 where "M1 = map (\<lambda>i. S ! nat i) (b2a bmg)"
  define R where "R = map (\<lambda>i. H ! nat i) (b2revb bmg)"
  have g: "gather H (a2b bmg) = Inr T"
    unfolding T_def using a by (rule gather_eq)
  have Sm: "is_mat (length (V bmg)) d S"
    using gather_sum_ok[OF H, of "a2b bmg"] a lH la g by (auto simp: S_def)
  have lS: "length S = length (V bmg)"
    using Sm by (rule is_mat_length)
  have i1: "index_select S (b2a bmg) = Inr M1"
    unfolding M1_def using b lS by (simp add: index_select_eq)
  have i2: "index_select H (b2revb bmg) = Inr R"
    unfolding R_def using r by (rule index_select_eq)
  have M1m: "is_mat (length (E bmg)) d M1"
    using index_select_ok[OF Sm b] i1 lb by auto
  have Rm: "is_mat (length (E bmg)) d R"
    using index_select_ok[OF H, of "b2revb bmg"] r lH i2 lr by auto
  note bo = broadcast_op_ok[OF M1m Rm, of "(-)"]
  have res: "Bond_message bmg H = Inr (map2 (map2 (-)) M1 R)"
    using g i1 i2 bo w by (simp add: Bond_message_def S_def)
  have o: "nat (b2a bmg ! e) < length (V bmg)"
  proof -
    have "in_range (length (V bmg)) (b2a bmg ! e)"
      using b e lb by (simp add: list_all_length)
    then show ?thesis by (simp add: in_range_norm[THEN conjunct2])
  qed
  have "map2 (map2 (-)) M1 R ! e = map2 (-) (M1 ! e) (R ! e)"
    using e M1m Rm by (simp add: is_mat_length)
  also have "M1 ! e = S ! nat (b2a bmg ! e)"
    using e lb by (simp add: M1_def)
  also have "S ! nat (b2a bmg ! e) = incoming_sum d H bmg (origin bmg e)"
    using o la by (simp add: S_def sum1_def T_def incoming_sum_def origin_def)
  also have "R ! e = H ! reverse bmg e"
    using e lr by (simp add: R_def reverse_def)
  finally have "map2 (map2 (-)) M1 R ! e = message_at d H bmg (origin bmg e) e"
    by (simp add: message_at_def vsub_def)
  with res bo show ?thesis by simp
qed

lemma vadd_zeros: "length x = d \<Longrightarrow> vadd x (zeros d) = x"
  by (simp add: vadd_def zeros_def list_eq_iff_nth_eq)

lemma vsub_self: "map2 (-) x x = zeros (length x)"
  by (simp add: zeros_def list_eq_iff_nth_eq)

lemma is_mat_3:
  assumes "is_mat 3 d H"
  obtains h0 h1 h2 where "H = [h0, h1, h2]" "length h0 = d" "length h1 = d" "length h2 = d"
proof -
  from assms have "length H = 3" by (simp add: is_mat_def)
  then obtain h0 h1 h2 where "H = [h0, h1, h2]"
    by (auto simp: length_Suc_conv numeral_3_eq_3)
  with assms that show thesis by (simp add: is_mat_def)
qed

lemma two_atom_message:
  assumes "a2b bmg = [[0], [2], [1]]" and "b2a bmg = [0, 1, 2]" and "b2revb bmg = [0, 2, 1]"
    and H: "is_mat 3 d H"
  shows "Bond_message bmg H = Inr [zeros d, zeros d, zeros d]"
proof -
  from H obtain h0 h1 h2 where h: "H = [h0, h1, h2]" "length h0 = d" "length h1 = d"
    "length h2 = d" by (rule is_mat_3)
  have g: "gather H (a2b bmg) = Inr [[h0], [h2], [h1]]"
    by (simp add: gather_def assms(1) h(1) valid_index_def norm_index_def)
  have s: "sum1 (width H) [[h0], [h2], [h1]] = [h0, h2, h1]"
    by (simp add: sum1_def width_def h vadd_zeros)
  have i1: "index_select [h0, h2, h1] (b2a bmg) = Inr [h0, h2, h1]"
    by (simp add: index_select_def assms(2) valid_index_def norm_index_def)
  have i2: "index_select H (b2revb bmg) = Inr [h0, h2, h1]"
    by (simp add: index_select_def assms(3) h(1) valid_index_def norm_index_def)
  have b: "broadcast_op (-) [h0, h2, h1] [h0, h2, h1] = Inr [zeros d, zeros d, zeros d]"
    using h(2-4) by (simp add: broadcast_op_def broadcast_row_def vsub_self)
  show ?thesis
    by (simp add: Bond_message_def g s i1 i2 b)
qed


section \<open>Depth and validation\<close>

lemma wf_bmg_noninv: "wf_batch 1 1 bmg_noninv"
  by (simp add: wf_batch_def bmg_noninv_def bmg2_def is_mat_def in_range_def)

lemma rounds_depth_le_1: "depth blk \<le> 1 \<Longrightarrow> rounds blk = 0"
  by (simp add: rounds_def)

lemma finalize_depth_update:
  "finalize (blk\<lparr>depth := n\<rparr>) keep k M Vx V_d = finalize blk keep k M Vx V_d"
  by (simp add: finalize_def fuse_def block_dropout_def
      cong del: sum.case_cong_weak option.case_cong_weak if_weak_cong)

lemma forward_depth_le_1:
  assumes "depth blk \<le> 1"
  shows "Bond_forward blk keep bmg V_d = Bond_forward (blk\<lparr>depth := 1\<rparr>) keep bmg V_d"
    and "Atom_forward blk keep bmg V_d = Atom_forward (blk\<lparr>depth := 1\<rparr>) keep bmg V_d"
proof -
  have r: "rounds blk = 0" "rounds (blk\<lparr>depth := 1\<rparr>) = 0"
    using assms by (simp_all add: rounds_def)
  show "Bond_forward blk keep bmg V_d = Bond_forward (blk\<lparr>depth := 1\<rparr>) keep bmg V_d"
    by (simp add: Bond_forward_def r finalize_depth_update)
  show "Atom_forward blk keep bmg V_d = Atom_forward (blk\<lparr>depth := 1\<rparr>) keep bmg V_d"
    by (simp add: Atom_forward_def r finalize_depth_update)
qed


section \<open>The sentinel row of the hidden state\<close>
































lemma forward_aggregate:
  "Bond_forward blk keep bmg V_d =
     ebind (Linear_forward (W_i blk) (E bmg)) (\<lambda>H_0.
     ebind (Bond_loop blk keep bmg H_0 (rounds blk) 0 (activate (tau blk) H_0)) (\<lambda>H_e.
     ebind (aggregate H_e (a2b bmg)) (\<lambda>M_v.
       finalize blk keep (rounds blk) M_v (V bmg) V_d)))"
  "Atom_forward blk keep bmg V_d =
     ebind (Linear_forward (W_i blk) (V bmg)) (\<lambda>H_0.
     ebind (Atom_loop blk keep bmg H_0 (rounds blk) 0 (activate (tau blk) H_0)) (\<lambda>H_v.
     ebind (aggregate H_v (a2a bmg)) (\<lambda>M_v.
       finalize blk keep (rounds blk) M_v (V bmg) V_d)))"
  by (simp_all add: Bond_forward_def Atom_forward_def aggregate_def ebind_def
      split: sum.splits)

section \<open>The claims\<close>

text \<open>
  Claim C10. For a block of either variant constructed with a descriptor width \<open>d\<close>, the
  property \<^verbatim>\<open>output_dim\<close> is the out-feature width of \<open>W_o\<close>, which is \<open>d_h\<close>, and does
  not include \<open>d\<close>; the private attribute holds \<open>d_h + d\<close> and no accessor reads it; and
  whenever \<^verbatim>\<open>finalize\<close> fuses a descriptor and returns, its rows have width \<open>d_h + d\<close>.
\<close>

theorem output_dim_excludes_descriptor:
  assumes "BondMessageBlock g th d_v d_e d_h b dep und p a (Some d) = Inr blk
         \<or> AtomMessageBlock g th d_v d_e d_h b dep und p a (Some d) = Inr blk"
    and "finalize blk keep k M_v Vx (Some Vd) = Inr H"
  shows "output_dim blk = d_h \<and> priv_output_dim blk = d_h + d \<and>
         is_mat (length Vx) (d_h + d) H"
proof -
  have f: "priv_output_dim blk = d_h + d \<and> d_vd blk = Some d \<and>
    W_vd blk = (case Some d of None \<Rightarrow> None
                 | Some d \<Rightarrow> Some (Linear_init (d_h + d) (d_h + d) True (init_W_vd th))) \<and>
    out_features (W_o blk) = d_h"
    using assms(1)
  proof
    assume a: "BondMessageBlock g th d_v d_e d_h b dep und p a (Some d) = Inr blk"
    from Base_init_fields(6,7,8)[OF a[unfolded BondMessageBlock_def]] Bond_dims(6)[OF a]
    show ?thesis by simp
  next
    assume a: "AtomMessageBlock g th d_v d_e d_h b dep und p a (Some d) = Inr blk"
    from Base_init_fields(6,7,8)[OF a[unfolded AtomMessageBlock_def]] Atom_dims(6)[OF a]
    show ?thesis by simp
  qed
  then have o: "out_features (W_o blk) = d_h" and dv: "d_vd blk = Some d"
    and w: "W_vd blk = (case Some d of None \<Rightarrow> None
                 | Some d \<Rightarrow> Some (Linear_init (d_h + d) (d_h + d) True (init_W_vd th)))"
    and pr: "priv_output_dim blk = d_h + d"
    by simp_all
  from finalize_width[OF assms(2) o dv w] pr o show ?thesis
    by (simp add: output_dim_def encoded_width_def)
qed

theorem output_dim_excludes_descriptor_witness:
  "BondMessageBlock relu_only th_ones 1 1 2 False 3 False 0 ''relu'' (Some 1)
     = Inr (bond_block 3 False (Some 1)) \<and>
   finalize (bond_block 3 False (Some 1)) keep_all 0 [[0, 0], [3, 3], [1, 1]] [[0], [1], [2]]
     (Some [[0], [1], [1]]) = Inr [[0, 0, 0], [- 15, - 15, - 15], [- 9, - 9, - 9]] \<and>
   output_dim (bond_block 3 False (Some 1)) = 2 \<and>
   priv_output_dim (bond_block 3 False (Some 1)) = 2 + 1 \<and>
   is_mat 3 (2 + 1) [[0, 0, 0], [- 15, - 15, - 15], [- 9, - 9, - 9]]"
proof -
  have a: "BondMessageBlock relu_only th_ones 1 1 2 False 3 False 0 ''relu'' (Some 1)
     = Inr (bond_block 3 False (Some 1))"
    by (rule bond_block_init)
  from output_dim_excludes_descriptor[OF disjI1[OF a] finalize_example] a finalize_example
  show ?thesis by (simp add: is_mat_def)
qed

text \<open>
  Claim C2. With a descriptor matrix supplied, the documented result of \<^verbatim>\<open>finalize\<close> is
  \<open>dropout (activation (W_vd (concat H V_d)))\<close>. The code applies the dropout to the
  output of \<open>W_vd\<close> and never the activation: for the block with \<^verbatim>\<open>relu\<close>, hidden width
  2, descriptor width 1 and all weights of \<open>W_vd\<close> equal to \<open>- 1\<close>, the code returns
  negative entries where the documented formula gives zeros.
\<close>

theorem finalize_omits_activation:
  "finalize (bond_block 3 False (Some 1)) keep_all 0 [[0, 0], [3, 3], [1, 1]] [[0], [1], [2]]
     (Some [[0], [1], [1]]) = Inr [[0, 0, 0], [- 15, - 15, - 15], [- 9, - 9, - 9]] \<and>
   finalize_documented (bond_block 3 False (Some 1)) keep_all 0 [[0, 0], [3, 3], [1, 1]]
     [[0], [1], [2]] (Some [[0], [1], [1]]) = Inr [[0, 0, 0], [0, 0, 0], [0, 0, 0]]"
proof -
  have "finalize_documented (bond_block 3 False (Some 1)) keep_all 0 [[0, 0], [3, 3], [1, 1]]
     [[0], [1], [2]] (Some [[0], [1], [1]]) = Inr [[0, 0, 0], [0, 0, 0], [0, 0, 0]]"
    by (simp add: ex_defs fw_defs op_defs finalize_documented_def fuse_documented_def
        Linear_init_def upt_rec numeral_eq_Suc)
  with finalize_example show ?thesis by simp
qed

text \<open>
  Claim C5. With depth 1 neither variant runs an update round: the encoding is
  \<^verbatim>\<open>finalize\<close> of the aggregated activation of the input projection, for every batch and
  descriptor argument, and so it does not depend on the hidden projection \<open>W_h\<close> or on
  the undirected flag. The number of rounds is \<open>depth - 1\<close>, here 0.
\<close>

theorem depth_one_no_update:
  assumes "depth blkB = 1" and "depth blkA = 1"
  shows "rounds blkB = 0 \<and> rounds blkA = 0 \<and>
     Bond_forward blkB keep bmg V_d =
       ebind (Linear_forward (W_i blkB) (E bmg)) (\<lambda>H_0.
       ebind (gather (activate (tau blkB) H_0) (a2b bmg)) (\<lambda>T.
         finalize blkB keep 0 (sum1 (width (activate (tau blkB) H_0)) T) (V bmg) V_d)) \<and>
     Atom_forward blkA keep bmg V_d =
       ebind (Linear_forward (W_i blkA) (V bmg)) (\<lambda>H_0.
       ebind (gather (activate (tau blkA) H_0) (a2a bmg)) (\<lambda>T.
         finalize blkA keep 0 (sum1 (width (activate (tau blkA) H_0)) T) (V bmg) V_d)) \<and>
     Bond_forward (blkB\<lparr>W_h := L, undirected := u\<rparr>) keep bmg V_d = Bond_forward blkB keep bmg V_d \<and>
     Atom_forward (blkA\<lparr>W_h := L, undirected := u\<rparr>) keep bmg V_d = Atom_forward blkA keep bmg V_d"
proof -
  have r: "rounds blkB = 0" "rounds blkA = 0"
    "rounds (blkB\<lparr>W_h := L, undirected := u\<rparr>) = 0"
    "rounds (blkA\<lparr>W_h := L, undirected := u\<rparr>) = 0"
    using assms by (simp_all add: rounds_def)
  have fin: "finalize (blk\<lparr>W_h := L, undirected := u\<rparr>) keep k M Vx V_d = finalize blk keep k M Vx V_d"
    for blk k M Vx
    by (simp add: finalize_def fuse_def block_dropout_def
        cong del: sum.case_cong_weak option.case_cong_weak if_weak_cong)
  show ?thesis
    by (simp add: r Bond_forward_def Atom_forward_def fin)
qed

theorem depth_one_no_update_witness:
  "depth (bond_block 1 False None) = 1 \<and> depth (atom_block 1 False None) = 1 \<and>
   Bond_forward (bond_block 1 False None) keep_all bmg3 None
     = Inr [[0, 0], [5, 5], [12, 12], [9, 9]] \<and>
   Atom_forward (atom_block 1 False None) keep_all bmg3 None
     = Inr [[0, 0], [5, 5], [10, 10], [7, 7]]"
proof -
  have d: "depth (bond_block 1 False None) = 1" "depth (atom_block 1 False None) = 1"
    by (simp_all add: bond_block_def atom_block_def)
  have "ebind (Linear_forward (W_i (bond_block 1 False None)) (E bmg3)) (\<lambda>H_0.
       ebind (gather (activate (tau (bond_block 1 False None)) H_0) (a2b bmg3)) (\<lambda>T.
         finalize (bond_block 1 False None) keep_all 0
           (sum1 (width (activate (tau (bond_block 1 False None)) H_0)) T) (V bmg3) None))
     = Inr [[0, 0], [5, 5], [12, 12], [9, 9]]"
    by (simp add: ex_defs fw_defs op_defs Linear_init_def upt_rec numeral_eq_Suc)
  moreover have "ebind (Linear_forward (W_i (atom_block 1 False None)) (V bmg3)) (\<lambda>H_0.
       ebind (gather (activate (tau (atom_block 1 False None)) H_0) (a2a bmg3)) (\<lambda>T.
         finalize (atom_block 1 False None) keep_all 0
           (sum1 (width (activate (tau (atom_block 1 False None)) H_0)) T) (V bmg3) None))
     = Inr [[0, 0], [5, 5], [10, 10], [7, 7]]"
    by (simp add: ex_defs fw_defs op_defs Linear_init_def upt_rec numeral_eq_Suc)
  ultimately show ?thesis
    using depth_one_no_update[OF d, of keep_all bmg3 None] d by simp
qed



text \<open>
  Claim C1, as amended. The claim gives the encoding one row per molecule and the row
  width \<open>d_h + d_v\<close> (plus \<open>d_vd\<close>). The blocks do no aggregation over molecules and
  \<open>W_o\<close> maps \<open>d_v + d_h\<close> features to \<open>d_h\<close>: on a well-formed batch and a fitting
  descriptor argument \<^verbatim>\<open>forward\<close> returns a matrix with one row for every row of \<open>V\<close>
  (every atom and the sentinel), of width \<open>d_h\<close> without a descriptor and \<open>d_h + d_vd\<close>
  with one. The bond-centered block always returns; so does the atom-centered block
  with the undirected flag off; and whenever the atom-centered block returns, the shape
  is the same.
\<close>

theorem forward_output_shape:
  assumes "wf_batch d_v d_e bmg" and "descriptor_ok dv (length (V bmg)) V_d"
  shows "(BondMessageBlock g th d_v d_e d_h b dep und p a dv = Inr blkB \<longrightarrow>
            (\<exists>H. Bond_forward blkB keep bmg V_d = Inr H \<and>
                 is_mat (length (V bmg)) (encoded_width d_h dv V_d) H)) \<and>
         (AtomMessageBlock g th d_v d_e d_h b dep False p a dv = Inr blkA \<longrightarrow>
            (\<exists>H. Atom_forward blkA keep bmg V_d = Inr H \<and>
                 is_mat (length (V bmg)) (encoded_width d_h dv V_d) H)) \<and>
         (AtomMessageBlock g th d_v d_e d_h b dep und p a dv = Inr blkU \<and>
          Atom_forward blkU keep bmg V_d = Inr H' \<longrightarrow>
            is_mat (length (V bmg)) (encoded_width d_h dv V_d) H')"
proof (intro conjI impI)
  assume "BondMessageBlock g th d_v d_e d_h b dep und p a dv = Inr blkB"
  from Bond_encode_ok[OF assms this]
  show "\<exists>H. Bond_forward blkB keep bmg V_d = Inr H \<and>
            is_mat (length (V bmg)) (encoded_width d_h dv V_d) H" .
next
  assume "AtomMessageBlock g th d_v d_e d_h b dep False p a dv = Inr blkA"
  from Atom_encode_ok[OF assms this]
  show "\<exists>H. Atom_forward blkA keep bmg V_d = Inr H \<and>
            is_mat (length (V bmg)) (encoded_width d_h dv V_d) H" .
next
  assume a: "AtomMessageBlock g th d_v d_e d_h b dep und p a dv = Inr blkU \<and>
          Atom_forward blkU keep bmg V_d = Inr H'"
  from Atom_forward_finalize[of blkU keep bmg V_d H'] a obtain k M
    where "finalize blkU keep k M (V bmg) V_d = Inr H'" by blast
  from constructed_finalize_width[OF disjI2 this] a
  show "is_mat (length (V bmg)) (encoded_width d_h dv V_d) H'" by blast
qed

theorem forward_output_shape_witness:
  "wf_batch 1 1 bmg2 \<and> descriptor_ok (Some 1) (length (V bmg2)) (Some [[0], [1], [1]]) \<and>
   BondMessageBlock relu_only th_ones 1 1 2 False 3 True 0 ''relu'' (Some 1)
     = Inr (bond_block 3 True (Some 1)) \<and>
   AtomMessageBlock relu_only th_ones 1 1 2 False 3 False 0 ''relu'' (Some 1)
     = Inr (atom_block 3 False (Some 1)) \<and>
   (\<exists>H. Bond_forward (bond_block 3 True (Some 1)) keep_all bmg2 (Some [[0], [1], [1]]) = Inr H \<and>
        is_mat 3 (2 + 1) H) \<and>
   (\<exists>H. Atom_forward (atom_block 3 False (Some 1)) keep_all bmg2 (Some [[0], [1], [1]]) = Inr H \<and>
        is_mat 3 (2 + 1) H)"
proof -
  have d: "descriptor_ok (Some 1) (length (V bmg2)) (Some [[0], [1], [1]])"
    by (simp add: descriptor_ok_def bmg2_def is_mat_def)
  have l: "length (V bmg2) = 3" "encoded_width 2 (Some 1) (Some [[0], [1], [1]]) = 2 + 1"
    by (simp_all add: bmg2_def encoded_width_def)
  from forward_output_shape[OF wf_bmg2 d, of relu_only th_ones 2 False 3 True 0 "''relu''"
      "bond_block 3 True (Some 1)" keep_all "atom_block 3 False (Some 1)"]
    bond_block_init[of 3 True "Some 1"] atom_block_init[of 3 False "Some 1"] wf_bmg2 d l
  show ?thesis by simp
qed

text \<open>
  The claim as stated fails on \<open>bmg2\<close>, one molecule with \<open>d_v = 1\<close> and \<open>d_h = 2\<close>:
  the encoding has three rows of width 2, not one row of width 3.
\<close>

theorem forward_width_counterexample:
  "BondMessageBlock relu_only th_ones 1 1 2 False 3 False 0 ''relu'' None
     = Inr (bond_block 3 False None) \<and>
   Bond_forward (bond_block 3 False None) keep_all bmg2 None = Inr [[0, 0], [7, 7], [4, 4]] \<and>
   \<not> is_mat 1 (2 + 1) [[0, 0], [7, 7], [4, 4]] \<and>
   \<not> list_all (\<lambda>r. length r = 2 + 1) [[0, 0], [7, 7], [4, 4]]"
  using bond_block_init[of 3 False None] bond_forward_bmg2 by (simp add: is_mat_def)

text \<open>
  Claim C6. In a batch of one molecule with two atoms and one bond the index tensors
  are those of \<open>bmg2\<close>. For every edge state \<open>H\<close> of three rows the message of the
  bond-centered block is then zero on every edge: the sum over \<open>a2b\<close> at the atom of an
  edge is the state of its reverse edge, which the subtraction removes. So a round,
  with or without symmetrization, updates with the zero message.
\<close>

theorem reverse_subtraction_two_atoms:
  assumes "a2b bmg = [[0], [2], [1]]" and "b2a bmg = [0, 1, 2]" and "b2revb bmg = [0, 2, 1]"
    and "is_mat 3 d H"
  shows "Bond_message bmg H = Inr [zeros d, zeros d, zeros d] \<and>
         Bond_round blk keep bmg H_0 k H = update blk keep k H_0 [zeros d, zeros d, zeros d]"
proof -
  have m: "Bond_message bmg H = Inr [zeros d, zeros d, zeros d]"
    using assms by (rule two_atom_message)
  have "list_all (in_range 3) (b2revb bmg)" "length (b2revb bmg) = 3"
    by (simp_all add: assms(3) in_range_def)
  from symmetrize_ok[OF assms(4) this(2,1)] obtain S
    where S: "symmetrize bmg H = Inr S" "is_mat 3 d S" by blast
  have "Bond_message bmg S = Inr [zeros d, zeros d, zeros d]"
    using assms(1-3) S(2) by (rule two_atom_message)
  with m S(1) show ?thesis by (simp add: Bond_round_def)
qed

theorem reverse_subtraction_two_atoms_witness:
  "a2b bmg2 = [[0], [2], [1]] \<and> b2a bmg2 = [0, 1, 2] \<and> b2revb bmg2 = [0, 2, 1] \<and>
   is_mat 3 2 [[0, 0], [1, 1], [3, 3]] \<and>
   Bond_message bmg2 [[0, 0], [1, 1], [3, 3]] = Inr [[0, 0], [0, 0], [0, 0]] \<and>
   Bond_round (bond_block 2 False None) keep_all bmg2 [[0, 0], [1, 1], [3, 3]] 0
     [[0, 0], [1, 1], [3, 3]] = Inr [[0, 0], [1, 1], [3, 3]]"
proof -
  have a: "a2b bmg2 = [[0], [2], [1]]" "b2a bmg2 = [0, 1, 2]" "b2revb bmg2 = [0, 2, 1]"
    by (simp_all add: bmg2_def)
  have m: "is_mat 3 2 [[0, 0], [1, 1], [3, 3]]"
    by (simp add: is_mat_def)
  have u: "update (bond_block 2 False None) keep_all 0 [[0, 0], [1, 1], [3, 3]]
      [zeros 2, zeros 2, zeros 2] = Inr [[0, 0], [1, 1], [3, 3]]"
    by (simp add: ex_defs fw_defs op_defs Linear_init_def upt_rec numeral_eq_Suc)
  have z: "zeros 2 = [0, 0]"
    by (simp add: zeros_def numeral_eq_Suc)
  from reverse_subtraction_two_atoms[OF a m, of "bond_block 2 False None" keep_all
      "[[0, 0], [1, 1], [3, 3]]" 0] a m u z
  show ?thesis by simp
qed

text \<open>
  Claim C3, as amended. The claim sums at the destination atom of the edge. The code
  indexes the per-atom sums with \<open>b2a\<close>, the origin atom: on a well-formed batch the
  message on edge \<open>e\<close> is the sum of the states of the edges that \<open>a2b\<close> lists for the
  origin atom of \<open>e\<close>, minus the state of the reverse edge of \<open>e\<close>.
\<close>

theorem message_sums_at_origin:
  assumes "wf_batch d_v d_e bmg" and "is_mat (length (E bmg)) d H" and "e < length (E bmg)"
  shows "\<exists>M. Bond_message bmg H = Inr M \<and> is_mat (length (E bmg)) d M \<and>
             M ! e = message_at d H bmg (origin bmg e) e"
  using assms by (rule Bond_message_nth)

theorem message_sums_at_origin_witness:
  "wf_batch 1 1 bmg2 \<and> is_mat (length (E bmg2)) 1 [[0], [1], [3]] \<and> 1 < length (E bmg2) \<and>
   origin bmg2 1 = 1 \<and> message_at 1 [[0], [1], [3]] bmg2 1 1 = [0] \<and>
   (\<exists>M. Bond_message bmg2 [[0], [1], [3]] = Inr M \<and> is_mat 3 1 M \<and> M ! 1 = [0])"
proof -
  have m: "is_mat (length (E bmg2)) 1 [[0], [1], [3]]" and e: "1 < length (E bmg2)"
    by (simp_all add: bmg2_def is_mat_def)
  have o: "origin bmg2 1 = 1" "message_at 1 [[0], [1], [3]] bmg2 1 1 = [0]"
    "length (E bmg2) = 3"
    by (simp_all add: origin_def message_at_def incoming_sum_def reverse_def vsub_def
        vadd_def zeros_def bmg2_def)
  from message_sums_at_origin[OF wf_bmg2 m e] wf_bmg2 m e o show ?thesis by simp
qed

text \<open>
  On \<open>bmg2\<close> with the edge states 1 and 3 the code gives the message 0 on edge 1; the
  sum at the destination atom of edge 1, less the state of the reverse edge, is \<open>- 2\<close>.
\<close>

theorem message_destination_counterexample:
  "Bond_message bmg2 [[0], [1], [3]] = Inr [[0], [0], [0]] \<and>
   destination bmg2 1 = 2 \<and>
   message_at 1 [[0], [1], [3]] bmg2 (destination bmg2 1) 1 = [- 2]"
proof -
  have "Bond_message bmg2 [[0], [1], [3]] = Inr [[0], [0], [0]]"
    by (simp add: Bond_message_def op_defs bmg2_def)
  moreover have "destination bmg2 1 = 2"
    by (simp add: destination_def origin_def reverse_def bmg2_def)
  moreover have "message_at 1 [[0], [1], [3]] bmg2 2 1 = [- 2]"
    by (simp add: message_at_def incoming_sum_def reverse_def vsub_def vadd_def zeros_def
        bmg2_def)
  ultimately show ?thesis by simp
qed

text \<open>
  Claim C8. With the undirected flag set the atom-centered block is to average the state
  of every atom with that of its counterpart over the atom adjacency. The code indexes
  the atom states with \<open>b2revb\<close>, the reverse map of the edges: on the chain of three
  atoms \<open>bmg3\<close>, which has four vertex rows and five edge rows, the index 4 is out of
  range and the encoding raises in the first round, while the same block with the flag
  off returns.
\<close>

theorem atom_symmetrization_uses_edge_map:
  "AtomMessageBlock relu_only th_ones 1 1 2 False 2 True 0 ''relu'' None
     = Inr (atom_block 2 True None) \<and>
   wf_batch 1 1 bmg3 \<and>
   symmetrize bmg3 [[1, 1], [2, 2], [3, 3], [4, 4]] = Inl IndexError \<and>
   Atom_forward (atom_block 2 True None) keep_all bmg3 None = Inl IndexError \<and>
   Atom_forward (atom_block 2 False None) keep_all bmg3 None
     = Inr [[0, 0], [31, 31], [36, 36], [33, 33]]"
proof -
  have "symmetrize bmg3 [[1, 1], [2, 2], [3, 3], [4, 4]] = Inl IndexError"
    by (simp add: symmetrize_def index_select_def valid_index_def bmg3_def)
  moreover have "Atom_forward (atom_block 2 True None) keep_all bmg3 None = Inl IndexError"
    by (simp add: ex_defs fw_defs op_defs Linear_init_def upt_rec numeral_eq_Suc)
  moreover have "Atom_forward (atom_block 2 False None) keep_all bmg3 None
     = Inr [[0, 0], [31, 31], [36, 36], [33, 33]]"
    by (simp add: ex_defs fw_defs op_defs Linear_init_def upt_rec numeral_eq_Suc)
  ultimately show ?thesis
    using atom_block_init[of 2 True None] wf_bmg3 by simp
qed

text \<open>
  Claim C4, as amended. Neither the constructor nor \<^verbatim>\<open>forward\<close> validates anything the
  claim names. With a dropout probability in \<open>[0, 1]\<close> and a known activation the
  constructors return a block for every depth, which is stored unchanged and gives
  \<open>max (depth - 1) 0\<close> rounds; for depth below 1 the encoding is that of depth 1. The
  bond-centered block encodes every batch whose tensors have fitting shapes and index
  ranges; \<open>wf_batch\<close> asks nothing else of \<open>b2revb\<close> and admits a batch of no molecule.
\<close>

theorem no_precondition_checks:
  assumes "0 \<le> p" and "p \<le> 1" and "g a = Inr t"
    and "wf_batch d_v d_e bmg" and "descriptor_ok dv (length (V bmg)) V_d"
  shows "(\<exists>blk. AtomMessageBlock g th d_v d_e d_h b dep und p a dv = Inr blk \<and>
               depth blk = dep \<and> rounds blk = nat (dep - 1)) \<and>
         (\<exists>blk. BondMessageBlock g th d_v d_e d_h b dep und p a dv = Inr blk \<and>
               depth blk = dep \<and> rounds blk = nat (dep - 1) \<and>
               (\<exists>H. Bond_forward blk keep bmg V_d = Inr H) \<and>
               (dep \<le> 1 \<longrightarrow>
                  Bond_forward blk keep bmg V_d = Bond_forward (blk\<lparr>depth := 1\<rparr>) keep bmg V_d))"
proof -
  from Base_init_ok[where g = g and a = a, OF assms(1-3)] obtain blkA
    where A: "AtomMessageBlock g th d_v d_e d_h b dep und p a dv = Inr blkA"
    unfolding AtomMessageBlock_def by blast
  from Base_init_ok[where g = g and a = a, OF assms(1-3)] obtain blkB
    where B: "BondMessageBlock g th d_v d_e d_h b dep und p a dv = Inr blkB"
    unfolding BondMessageBlock_def by blast
  have dA: "depth blkA = dep"
    using Base_init_fields(1)[OF A[unfolded AtomMessageBlock_def]] .
  have dB: "depth blkB = dep"
    using Base_init_fields(1)[OF B[unfolded BondMessageBlock_def]] .
  from Bond_encode_ok[OF assms(4,5) B] obtain H
    where H: "Bond_forward blkB keep bmg V_d = Inr H" by blast
  have "dep \<le> 1 \<longrightarrow>
      Bond_forward blkB keep bmg V_d = Bond_forward (blkB\<lparr>depth := 1\<rparr>) keep bmg V_d"
    using forward_depth_le_1(1)[of blkB] dB by simp
  with A B dA dB H show ?thesis
    by (auto simp: rounds_def)
qed

theorem no_precondition_checks_witness:
  "(0::real) \<le> 0 \<and> (0::real) \<le> 1 \<and> relu_only ''relu'' = Inr relu \<and> wf_batch 1 1 bmg_noninv \<and>
   descriptor_ok None (length (V bmg_noninv)) None \<and>
   (\<exists>blk. AtomMessageBlock relu_only th_ones 1 1 2 False 0 True 0 ''relu'' None = Inr blk \<and>
         depth blk = 0 \<and> rounds blk = 0) \<and>
   (\<exists>blk. BondMessageBlock relu_only th_ones 1 1 2 False 0 True 0 ''relu'' None = Inr blk \<and>
         depth blk = 0 \<and> rounds blk = 0 \<and>
         (\<exists>H. Bond_forward blk keep_all bmg_noninv None = Inr H) \<and>
         Bond_forward blk keep_all bmg_noninv None
           = Bond_forward (blk\<lparr>depth := 1\<rparr>) keep_all bmg_noninv None)"
proof -
  have p: "(0::real) \<le> 0" "(0::real) \<le> 1" by simp_all
  have g: "relu_only ''relu'' = Inr relu" by (simp add: relu_only_def)
  have d: "descriptor_ok None (length (V bmg_noninv)) None"
    by (simp add: descriptor_ok_def)
  from no_precondition_checks[where g = relu_only and a = "''relu''" and th = th_ones
      and d_h = 2 and b = False and dep = 0 and und = True and keep = keep_all,
      OF p g wf_bmg_noninv d]
    p g wf_bmg_noninv d
  show ?thesis by simp
qed

text \<open>
  A block of depth 0 is constructed and encodes \<open>bmg2\<close>; the batch \<open>bmg_noninv\<close>, whose
  reverse map sends both edges to edge 1, is encoded by an undirected block of depth 3;
  and so is the batch of no molecule.
\<close>

theorem no_precondition_checks_counterexample:
  "BondMessageBlock relu_only th_ones 1 1 2 False 0 False 0 ''relu'' None
     = Inr (bond_block 0 False None) \<and>
   Bond_forward (bond_block 0 False None) keep_all bmg2 None = Inr [[0, 0], [7, 7], [4, 4]] \<and>
   b2revb bmg_noninv ! 2 = 1 \<and> b2revb bmg_noninv ! 1 = 1 \<and>
   Bond_forward (bond_block 3 True None) keep_all bmg_noninv None
     = Inr [[0, 0], [7, 7], [4, 4]] \<and>
   Bond_forward (bond_block 3 False None) keep_all bmg_empty None = Inr [[0, 0]]"
proof -
  have "Bond_forward (bond_block 0 False None) keep_all bmg2 None = Inr [[0, 0], [7, 7], [4, 4]]"
    by (simp add: ex_defs fw_defs op_defs Linear_init_def upt_rec numeral_eq_Suc)
  moreover have "Bond_forward (bond_block 3 True None) keep_all bmg_noninv None
     = Inr [[0, 0], [7, 7], [4, 4]]"
    by (simp add: ex_defs fw_defs op_defs Linear_init_def upt_rec numeral_eq_Suc)
  moreover have "Bond_forward (bond_block 3 False None) keep_all bmg_empty None = Inr [[0, 0]]"
    by (simp add: ex_defs fw_defs op_defs Linear_init_def upt_rec numeral_eq_Suc)
  moreover have "b2revb bmg_noninv ! 2 = 1" "b2revb bmg_noninv ! 1 = 1"
    by (simp_all add: bmg_noninv_def bmg2_def)
  ultimately show ?thesis
    using bond_block_init[of 0 False None] by simp
qed




end
